theory Spec2Isabelle
  imports Complex_Main "HOL-Library.Log_Nat"
begin

section \<open>JavaScript values used by the front end\<close>

text \<open>
  A JavaScript number is an IEEE 754 binary64 value. A finite one is modelled by the
  real number it denotes, beside \<open>NaN\<close> and the two infinities; the sign of a zero is
  not kept (no result below depends on it).
\<close>

datatype jsnum = NaN | Fin real | PosInf | NegInf

text \<open>
  Rounding a real number to binary64, to nearest with ties to even. \<open>binary_exponent x\<close>
  is the \<open>e\<close> with \<open>2^e \<le> |x| < 2^(e+1)\<close>; the spacing of the doubles around \<open>x\<close> is
  \<open>2^(e - 52)\<close>, and \<open>2^(-1074)\<close> in the subnormal range; a result of magnitude \<open>2^1024\<close>
  or more is an infinity.
\<close>

definition pow2 :: "int \<Rightarrow> real" where
  "pow2 k = (if 0 \<le> k then 2 ^ nat k else 1 / 2 ^ nat (- k))"

definition binary_exponent :: "real \<Rightarrow> int" where
  "binary_exponent x =
     (if 1 \<le> \<bar>x\<bar> then bitlen \<lfloor>\<bar>x\<bar>\<rfloor> - 1 else - bitlen (\<lceil>1 / \<bar>x\<bar>\<rceil> - 1))"

definition round_half_even :: "real \<Rightarrow> int" where
  "round_half_even y =
     (let f = \<lfloor>y\<rfloor>; r = y - of_int f in
      if r < 1 / 2 then f else if 1 / 2 < r then f + 1 else if even f then f else f + 1)"

definition fl64 :: "real \<Rightarrow> jsnum" where
  "fl64 x =
     (if x = 0 then Fin 0
      else (let q = pow2 (max (binary_exponent x) (- 1022) - 52);
                r = of_int (round_half_even (x / q)) * q
            in if 2 ^ 1024 \<le> r then PosInf
               else if r \<le> - (2 ^ 1024) then NegInf
               else Fin r))"

text \<open>
  A number property of a parsed JSON body. An absent property is \<open>undefined\<close>, which
  arithmetic converts to \<open>NaN\<close>; a number written \<open>x\<close> in the body is the double nearest
  to \<open>x\<close>.
\<close>

fun jsonNumber :: "real option \<Rightarrow> jsnum" where
  "jsonNumber None = NaN"
| "jsonNumber (Some x) = fl64 x"

text \<open>The arithmetic operators: the exact result of finite operands is rounded.\<close>

fun jsneg :: "jsnum \<Rightarrow> jsnum" where
  "jsneg (Fin a) = Fin (- a)"
| "jsneg PosInf = NegInf"
| "jsneg NegInf = PosInf"
| "jsneg NaN = NaN"

fun jsadd :: "jsnum \<Rightarrow> jsnum \<Rightarrow> jsnum" where
  "jsadd (Fin a) (Fin b) = fl64 (a + b)"
| "jsadd NaN _ = NaN"
| "jsadd _ NaN = NaN"
| "jsadd PosInf NegInf = NaN"
| "jsadd NegInf PosInf = NaN"
| "jsadd PosInf _ = PosInf"
| "jsadd _ PosInf = PosInf"
| "jsadd NegInf _ = NegInf"
| "jsadd _ NegInf = NegInf"

definition jssub :: "jsnum \<Rightarrow> jsnum \<Rightarrow> jsnum" where
  "jssub a b = jsadd a (jsneg b)"

text \<open>An infinity times zero is \<open>NaN\<close>; otherwise the signs multiply.\<close>

fun infinite_product :: "bool \<Rightarrow> jsnum \<Rightarrow> jsnum" where
  "infinite_product positive (Fin b) =
     (if b = 0 then NaN else if (0 < b) = positive then PosInf else NegInf)"
| "infinite_product positive PosInf = (if positive then PosInf else NegInf)"
| "infinite_product positive NegInf = (if positive then NegInf else PosInf)"
| "infinite_product positive NaN = NaN"

fun jsmul :: "jsnum \<Rightarrow> jsnum \<Rightarrow> jsnum" where
  "jsmul (Fin a) (Fin b) = fl64 (a * b)"
| "jsmul NaN _ = NaN"
| "jsmul _ NaN = NaN"
| "jsmul PosInf b = infinite_product True b"
| "jsmul NegInf b = infinite_product False b"
| "jsmul a PosInf = infinite_product True a"
| "jsmul a NegInf = infinite_product False a"

text \<open>\<open>a <= b\<close> and \<open>a >= b\<close>: every comparison with \<open>NaN\<close> is false.\<close>

fun jsle :: "jsnum \<Rightarrow> jsnum \<Rightarrow> bool" where
  "jsle NaN _ = False"
| "jsle _ NaN = False"
| "jsle (Fin a) (Fin b) = (a \<le> b)"
| "jsle NegInf _ = True"
| "jsle _ PosInf = True"
| "jsle _ _ = False"

definition jsge :: "jsnum \<Rightarrow> jsnum \<Rightarrow> bool" where
  "jsge a b = jsle b a"

text \<open>
  \<open>Math.round\<close> rounds to the nearest integer, a tie going up, and returns \<open>NaN\<close> and the
  infinities unchanged. \<open>Math.min\<close> and \<open>Math.max\<close> return \<open>NaN\<close> when an argument is \<open>NaN\<close>.
\<close>

definition round_half_up :: "real \<Rightarrow> int" where
  "round_half_up x = \<lfloor>x + 1 / 2\<rfloor>"

fun Math_round :: "jsnum \<Rightarrow> jsnum" where
  "Math_round (Fin x) = Fin (of_int (round_half_up x))"
| "Math_round v = v"

definition Math_min :: "jsnum \<Rightarrow> jsnum \<Rightarrow> jsnum" where
  "Math_min a b = (if a = NaN \<or> b = NaN then NaN else if jsle a b then a else b)"

definition Math_max :: "jsnum \<Rightarrow> jsnum \<Rightarrow> jsnum" where
  "Math_max a b = (if a = NaN \<or> b = NaN then NaN else if jsle a b then b else a)"

text \<open>
  Exceptions. A \<open>TypeError\<close> carries the name of the property that was read from
  \<open>undefined\<close>; \<open>Error\<close> carries the message given to its constructor.
\<close>

datatype js_error = TypeError string | SyntaxError | Error string

text \<open>ASCII case folding, as the \<open>i\<close> flag of a regular expression applies it.\<close>

definition lower_ascii :: "char \<Rightarrow> char" where
  "lower_ascii c =
     (case map_of (zip ''ABCDEFGHIJKLMNOPQRSTUVWXYZ'' ''abcdefghijklmnopqrstuvwxyz'') c of
        Some d \<Rightarrow> d
      | None \<Rightarrow> c)"

definition endsWith :: "string \<Rightarrow> string \<Rightarrow> bool" where
  "endsWith s suffix = (length suffix \<le> length s \<and> drop (length s - length suffix) s = suffix)"

text \<open>\<open>name.replace(/\.(pdf|doc|docx)$/i, "")\<close>: at most one of the suffixes matches.\<close>

definition stripOfferExt :: "string \<Rightarrow> string" where
  "stripOfferExt name =
     (let l = map lower_ascii name in
      if endsWith l ''.pdf'' \<or> endsWith l ''.doc'' then take (length name - 4) name
      else if endsWith l ''.docx'' then take (length name - 5) name
      else name)"

text \<open>\<open>Array.prototype.join\<close> on strings.\<close>

fun join :: "string \<Rightarrow> string list \<Rightarrow> string" where
  "join sep [] = []"
| "join sep [x] = x"
| "join sep (x # y # ys) = x @ sep @ join sep (y # ys)"


section \<open>Submission page: data model\<close>

record UploadedOffer =
  id :: string
  file_name :: string
  isCurrent :: bool

text \<open>The sliders of the page have \<open>min = 1\<close>, \<open>max = 5\<close> and \<open>step = 1\<close>: ratings are integers.\<close>

record Priorities =
  financial :: int
  career :: int
  lifestyle :: int
  alignment :: int

record KeyDriver =
  label :: string
  impact :: string

record NegotiationTarget =
  item :: string
  ask :: string
  reason :: string

text \<open>
  The evaluation as it arrives from \<open>evalResp.json()\<close>. The cast to \<open>WorkflowEvaluation\<close>
  checks nothing, so every field may be missing: \<open>None\<close> is \<open>undefined\<close>.
\<close>

record WorkflowEvaluation =
  score :: "real option"
  recommendation :: "string option"
  confidence :: "real option"
  key_drivers :: "KeyDriver list option"
  negotiation_targets :: "NegotiationTarget list option"
  risks :: "string list option"
  followup_questions :: "string list option"
  one_paragraph_summary :: "string option"

record CategoryScores =
  financial :: jsnum
  career :: jsnum
  lifestyle :: jsnum
  alignment :: jsnum
  risk :: jsnum

record OfferComparison =
  name :: string
  overall :: jsnum
  financial :: jsnum
  career :: jsnum
  risk :: jsnum

record ResultsAnalysisData =
  overallScore :: jsnum
  categoryScores :: CategoryScores
  grade :: string
  strengths :: "string list"
  risks :: "string list"
  financialProjection :: "string option"
  negotiationInsights :: string
  comparisonData :: "OfferComparison list"
  confidence :: jsnum
  recommendation :: "string option"


section \<open>Evaluation normalizer\<close>

definition toGrade :: "jsnum \<Rightarrow> string" where
  "toGrade score100 =
     (if jsge score100 (Fin 93) then ''A''
      else if jsge score100 (Fin 85) then ''A-''
      else if jsge score100 (Fin 78) then ''B+''
      else if jsge score100 (Fin 70) then ''B''
      else if jsge score100 (Fin 62) then ''C''
      else ''D'')"

definition clamp :: "jsnum \<Rightarrow> jsnum \<Rightarrow> jsnum \<Rightarrow> jsnum" where
  "clamp n low high = Math_max low (Math_min high n)"

definition negotiationLine :: "NegotiationTarget \<Rightarrow> string" where
  "negotiationLine t = item t @ '': '' @ ask t @ '' ('' @ reason t @ '')''"

text \<open>
  \<open>mapEvalToAnalysis\<close> reads \<open>priorities\<close> from the component state. Reading \<open>.length\<close> or
  \<open>.filter\<close> of a missing list throws; a missing number becomes \<open>NaN\<close>; a missing
  recommendation compares unequal to both strings. Every product, sum and difference
  is rounded to a double, and the literal \<open>0.1\<close> is the double nearest to one tenth.
\<close>

definition mapEvalToAnalysis ::
  "Priorities \<Rightarrow> WorkflowEvaluation \<Rightarrow> string \<Rightarrow> js_error + ResultsAnalysisData" where
  "mapEvalToAnalysis priorities evalOut currentFileName =
     (let overallScore = clamp (Math_round (jsmul (jsonNumber (score evalOut)) (Fin 10))) (Fin 0) (Fin 100);
          confidence = clamp (Math_round (jsmul (jsonNumber (WorkflowEvaluation.confidence evalOut)) (Fin 100)))
                         (Fin 0) (Fin 100);
          riskPenalty = (if WorkflowEvaluation.recommendation evalOut = Some ''needs_more_info'' then 18
                         else if WorkflowEvaluation.recommendation evalOut = Some ''renegotiate'' then 8
                         else 0)
      in case WorkflowEvaluation.risks evalOut of
           None \<Rightarrow> Inl (TypeError ''length'')
         | Some rs \<Rightarrow>
      (let riskScore =
             clamp (Math_round
                      (jsadd (jssub (jssub (Fin 76) (jsmul (Fin (real (length rs))) (Fin 7)))
                                    (Fin riskPenalty))
                             (jsmul confidence (fl64 (1 / 10)))))
                   (Fin 12) (Fin 95);
           categoryScores = \<lparr>
             CategoryScores.financial =
               clamp (Math_round (jsadd overallScore
                        (jsmul (jssub (Fin (of_int (Priorities.financial priorities))) (Fin 3)) (Fin 6))))
                     (Fin 8) (Fin 98),
             CategoryScores.career =
               clamp (Math_round (jsadd (jssub overallScore (Fin 4))
                        (jsmul (jssub (Fin (of_int (Priorities.career priorities))) (Fin 3)) (Fin 6))))
                     (Fin 8) (Fin 98),
             CategoryScores.lifestyle =
               clamp (Math_round (jsadd (jssub overallScore (Fin 8))
                        (jsmul (jssub (Fin (of_int (Priorities.lifestyle priorities))) (Fin 3)) (Fin 6))))
                     (Fin 8) (Fin 95),
             CategoryScores.alignment =
               clamp (Math_round (jsadd (jssub overallScore (Fin 6))
                        (jsmul (jssub (Fin (of_int (Priorities.alignment priorities))) (Fin 3)) (Fin 6))))
                     (Fin 8) (Fin 96),
             CategoryScores.risk = riskScore \<rparr>
       in case key_drivers evalOut of
            None \<Rightarrow> Inl (TypeError ''filter'')
          | Some ds \<Rightarrow>
       (let strengths =
              take 6 (map label (filter (\<lambda>d. impact d = ''positive'' \<or> impact d = ''neutral'') ds))
        in case negotiation_targets evalOut of
             None \<Rightarrow> Inl (TypeError ''length'')
           | Some ts \<Rightarrow>
        (let negotiationInsights =
               (if length ts > 0 then join '' '' (map negotiationLine ts)
                else ''No negotiation targets were returned by the model.'')
         in Inr \<lparr>
              overallScore = overallScore,
              categoryScores = categoryScores,
              grade = toGrade overallScore,
              strengths = (if strengths \<noteq> [] then strengths
                           else [''Model did not return positive key drivers.'']),
              risks = rs,
              financialProjection = one_paragraph_summary evalOut,
              negotiationInsights = negotiationInsights,
              comparisonData = [\<lparr>
                name = stripOfferExt currentFileName,
                overall = overallScore,
                OfferComparison.financial = CategoryScores.financial categoryScores,
                OfferComparison.career = CategoryScores.career categoryScores,
                OfferComparison.risk = CategoryScores.risk categoryScores \<rparr>],
              confidence = confidence,
              recommendation = WorkflowEvaluation.recommendation evalOut \<rparr>))))"


section \<open>Offer list of the submission page\<close>

text \<open>
  The three handlers update the \<open>offers\<close> state. \<open>handleFileUpload\<close> gets the identifier
  drawn by \<open>crypto.randomUUID()\<close> and the chosen file, if any; handlers run one at a time,
  so the \<open>offers\<close> of the closure and the \<open>prev\<close> of the updater are the same list.
\<close>

definition handleFileUpload :: "string \<Rightarrow> string option \<Rightarrow> UploadedOffer list \<Rightarrow> UploadedOffer list" where
  "handleFileUpload uuid chosen offers =
     (case chosen of
        None \<Rightarrow> offers
      | Some f \<Rightarrow> offers @ [\<lparr>id = uuid, file_name = f, isCurrent = (length offers = 0)\<rparr>])"

definition removeOffer :: "string \<Rightarrow> UploadedOffer list \<Rightarrow> UploadedOffer list" where
  "removeOffer i prev =
     (let filtered = filter (\<lambda>x. id x \<noteq> i) prev in
      if length filtered > 0 \<and> \<not> list_ex isCurrent filtered
      then filtered[0 := (filtered ! 0)\<lparr>isCurrent := True\<rparr>]
      else filtered)"

definition selectCurrent :: "string \<Rightarrow> UploadedOffer list \<Rightarrow> UploadedOffer list" where
  "selectCurrent i prev = map (\<lambda>x. x\<lparr>isCurrent := (id x = i)\<rparr>) prev"

text \<open>
  The lists the page can reach from the empty one. An upload draws a fresh identifier;
  the checkbox that calls \<open>selectCurrent\<close> is rendered once per listed offer, with that
  offer's identifier.
\<close>

inductive reachable :: "UploadedOffer list \<Rightarrow> bool" where
  initial: "reachable []"
| upload: "reachable offers \<Longrightarrow> uuid \<notin> id ` set offers \<Longrightarrow>
     reachable (handleFileUpload uuid chosen offers)"
| remove: "reachable offers \<Longrightarrow> reachable (removeOffer i offers)"
| select: "reachable offers \<Longrightarrow> i \<in> id ` set offers \<Longrightarrow>
     reachable (selectCurrent i offers)"


section \<open>Browser storage\<close>

text \<open>
  A stored string is either the serialisation that \<open>JSON.stringify\<close> wrote for a value, or
  some other text, on which \<open>JSON.parse\<close> throws. Every key of the application has its own
  slot, holding values of the one type the application writes under it; \<open>None\<close> is an
  absent key. \<open>JSON.stringify\<close> writes \<open>NaN\<close> as \<open>null\<close>.
\<close>

datatype 'a stored = Text string | Json 'a

fun JSON_parse :: "'a stored \<Rightarrow> js_error + 'a" where
  "JSON_parse (Json v) = Inr v"
| "JSON_parse (Text s) = Inl SyntaxError"

text \<open>\<open>if (raw)\<close> on the result of \<open>getItem\<close>: \<open>null\<close> and the empty string are falsy.\<close>

fun present :: "'a stored option \<Rightarrow> 'a stored option" where
  "present None = None"
| "present (Some (Text s)) = (if s = [] then None else Some (Text s))"
| "present (Some (Json v)) = Some (Json v)"

record ProfileData =
  name :: string
  city :: string
  country :: string
  nationality :: string
  monthlyExpenses :: string
  ownedAsset :: string
  debts :: string
  resumeName :: "string option"
  completed :: bool

record OfferRef =
  id :: string
  fileName :: string
  isCurrent :: bool

text \<open>The earlier submission page stores the snapshot without \<open>backendOfferId\<close>.\<close>

record SubmissionSnapshot =
  offers :: "OfferRef list"
  priorities :: Priorities
  backendOfferId :: "int option"

record IngestParsed =
  base_salary :: "real option"
  bonus_target :: "real option"
  equity_amount :: "real option"

record IngestResponse =
  offer_id :: "int option"
  parsed :: "IngestParsed option"

record MarketSnapshotResponse =
  provider :: string
  sample_size :: real
  market_base_median :: real
  market_bonus_avg :: real
  market_signing_avg :: real
  market_total_est :: real
  offer_total_est :: real
  offer_vs_market_ratio :: real

record LocalStorage =
  offergo_profile :: "ProfileData stored option"

record SessionStorage =
  offergo_submission :: "SubmissionSnapshot stored option"
  offergo_demo_analysis :: "ResultsAnalysisData stored option"
  offergo_workflow_eval :: "WorkflowEvaluation stored option"
  offergo_ingest_parsed :: "IngestParsed stored option"
  offergo_market_snapshot :: "MarketSnapshotResponse stored option"
  offergo_demo_user :: "string option"

definition emptyProfile :: ProfileData where
  "emptyProfile = \<lparr>ProfileData.name = [], city = [], country = [], nationality = [],
     monthlyExpenses = [], ownedAsset = [], debts = [], resumeName = None, completed = False\<rparr>"

definition loadProfile :: "LocalStorage \<Rightarrow> ProfileData" where
  "loadProfile ls =
     (case present (offergo_profile ls) of
        None \<Rightarrow> emptyProfile
      | Some raw \<Rightarrow> (case JSON_parse raw of Inl e \<Rightarrow> emptyProfile | Inr p \<Rightarrow> p))"

definition loginDemoUser :: "LocalStorage \<times> SessionStorage \<Rightarrow> LocalStorage \<times> SessionStorage" where
  "loginDemoUser st =
     (let profileData = \<lparr>ProfileData.name = ''Bob Wang'', city = ''New York'', country = ''USA'',
            nationality = ''Chinese'', monthlyExpenses = ''3200'', ownedAsset = ''40000'',
            debts = ''10000 @ 5%'', resumeName = Some ''resume_bob_wang.pdf'', completed = True\<rparr>
      in ((fst st)\<lparr>offergo_profile := Some (Json profileData)\<rparr>,
          (snd st)\<lparr>offergo_demo_user := Some ''demo-bob''\<rparr>))"

definition logoutDemoUser :: "LocalStorage \<times> SessionStorage \<Rightarrow> LocalStorage \<times> SessionStorage" where
  "logoutDemoUser st =
     ((fst st)\<lparr>offergo_profile := None\<rparr>,
      (snd st)\<lparr>offergo_submission := None, offergo_demo_analysis := None,
                offergo_demo_user := None\<rparr>)"


section \<open>Submitting an offer\<close>

text \<open>
  What an awaited request gives: a rejected promise (with the message of the error, if
  it is an \<open>Error\<close>), a response that is not \<open>ok\<close> (with its body text), or the JSON body of
  an \<open>ok\<close> response.
\<close>

datatype 'a response = Rejected "string option" | NotOk string | Ok 'a

text \<open>A notification shows a literal text or the message of a caught error object.\<close>

datatype toast_text = Literal string | MessageOf js_error

record toast =
  title :: string
  description :: toast_text

record SubmitEnv =
  ingest :: "IngestResponse response"
  evaluate :: "WorkflowEvaluation response"
  market :: "MarketSnapshotResponse response"

record SubmitResult =
  storage :: SessionStorage
  shown :: "toast list"
  navigated :: "string option"

text \<open>
  The body of the \<open>try\<close> block of \<open>handleSubmit\<close>: the storage it leaves, and either the
  description of the error it threw or normal completion. \<open>offerState\<close> and
  \<open>priorityState\<close> are the \<open>offers\<close> and \<open>priorities\<close> of the component state. The
  \<open>isSubmitting\<close> flag, set before the block and cleared in \<open>finally\<close>, is left out.
\<close>

definition submitRequests ::
  "SubmitEnv \<Rightarrow> UploadedOffer list \<Rightarrow> Priorities \<Rightarrow> UploadedOffer \<Rightarrow> SessionStorage
     \<Rightarrow> SessionStorage \<times> (toast_text + unit)" where
  "submitRequests env offerState priorityState currentOffer session =
     (case ingest env of
        Rejected m \<Rightarrow> (session, Inl (Literal (case m of Some t \<Rightarrow> t | None \<Rightarrow> ''Unknown error'')))
      | NotOk t \<Rightarrow> (session, Inl (Literal t))
      | Ok ingestJson \<Rightarrow>
          if offer_id ingestJson = None \<or> offer_id ingestJson = Some 0
          then (session, Inl (Literal ''Ingest succeeded but no offer_id was returned.''))
          else (case evaluate env of
              Rejected m \<Rightarrow> (session, Inl (Literal (case m of Some t \<Rightarrow> t | None \<Rightarrow> ''Unknown error'')))
            | NotOk t \<Rightarrow> (session, Inl (Literal t))
            | Ok evalJson \<Rightarrow>
               (let marketSnapshot = (case market env of Ok m \<Rightarrow> Some m | _ \<Rightarrow> None);
                    submission = \<lparr>
                      offers = map (\<lambda>x. \<lparr>OfferRef.id = UploadedOffer.id x, fileName = file_name x,
                                          OfferRef.isCurrent = UploadedOffer.isCurrent x\<rparr>) offerState,
                      priorities = priorityState,
                      backendOfferId = offer_id ingestJson \<rparr>;
                    s1 = session\<lparr>offergo_submission := Some (Json submission)\<rparr>
                in case mapEvalToAnalysis priorityState evalJson (file_name currentOffer) of
                     Inl e \<Rightarrow> (s1, Inl (MessageOf e))
                   | Inr analysis \<Rightarrow>
                      (let s2 = s1\<lparr>offergo_demo_analysis := Some (Json analysis)\<rparr>;
                           s3 = s2\<lparr>offergo_workflow_eval := Some (Json evalJson)\<rparr>;
                           s4 = s3\<lparr>offergo_ingest_parsed := Some (Json
                                  (case parsed ingestJson of
                                     Some q \<Rightarrow> q
                                   | None \<Rightarrow> \<lparr>base_salary = None, bonus_target = None,
                                               equity_amount = None\<rparr>))\<rparr>;
                           s5 = (case marketSnapshot of
                                   Some m \<Rightarrow> s4\<lparr>offergo_market_snapshot := Some (Json m)\<rparr>
                                 | None \<Rightarrow> s4)
                       in (s5, Inr ())))))"

definition handleSubmit ::
  "SubmitEnv \<Rightarrow> UploadedOffer list \<Rightarrow> Priorities \<Rightarrow> SessionStorage \<Rightarrow> SubmitResult" where
  "handleSubmit env offerState priorityState session =
     (if length offerState = 0
      then \<lparr>storage = session,
            shown = [\<lparr>title = ''Upload required'',
                      description = Literal ''Please upload at least one offer letter.''\<rparr>],
            navigated = None\<rparr>
      else if \<not> list_ex UploadedOffer.isCurrent offerState
      then \<lparr>storage = session,
            shown = [\<lparr>title = ''Selection required'',
                      description = Literal ''Please select a current offer.''\<rparr>],
            navigated = None\<rparr>
      else (case find UploadedOffer.isCurrent offerState of
          None \<Rightarrow> \<lparr>storage = session, shown = [], navigated = None\<rparr>
        | Some currentOffer \<Rightarrow>
            if \<not> endsWith (map lower_ascii (file_name currentOffer)) ''.pdf''
            then \<lparr>storage = session,
                  shown = [\<lparr>title = ''PDF required'',
                            description = Literal ''Please upload a PDF offer letter.''\<rparr>],
                  navigated = None\<rparr>
            else (case submitRequests env offerState priorityState currentOffer session of
                (session', Inl d) \<Rightarrow>
                  \<lparr>storage = session',
                   shown = [\<lparr>title = ''Analysis failed'', description = d\<rparr>],
                   navigated = None\<rparr>
              | (session', Inr u) \<Rightarrow>
                  \<lparr>storage = session', shown = [], navigated = Some ''/results''\<rparr>)))"


section \<open>Results page: loading the stored analysis\<close>

record ChatMessage =
  role :: string
  content :: string

record OfferVsMarket =
  offerTotal :: real
  marketTotal :: real

record ResultsState =
  data :: "ResultsAnalysisData option"
  backendOfferId :: "int option"
  priorities :: "Priorities option"
  workflowEval :: "WorkflowEvaluation option"
  offerVsMarket :: "OfferVsMarket option"
  chat :: "ChatMessage list"
  input :: string
  typing :: bool

definition initialResults :: ResultsState where
  "initialResults = \<lparr>data = None, ResultsState.backendOfferId = None,
     ResultsState.priorities = None, workflowEval = None, offerVsMarket = None,
     chat = [], input = [], typing = False\<rparr>"

text \<open>
  One row of the demo comparison table. \<open>random k\<close> is the result of the \<open>k\<close>-th call of
  \<open>Math.random()\<close>; the first row makes no call, every later row makes four.
\<close>

definition demoComparisonRow :: "(nat \<Rightarrow> real) \<Rightarrow> nat \<Rightarrow> string \<Rightarrow> OfferComparison" where
  "demoComparisonRow random i nm =
     \<lparr>OfferComparison.name = nm,
      overall = (if i = 0 then Fin 87
                 else Fin (72 + of_int \<lfloor>random (4 * (i - 1)) * 12\<rfloor>)),
      OfferComparison.financial = (if i = 0 then Fin 92
                 else Fin (65 + of_int \<lfloor>random (4 * (i - 1) + 1) * 20\<rfloor>)),
      OfferComparison.career = (if i = 0 then Fin 81
                 else Fin (60 + of_int \<lfloor>random (4 * (i - 1) + 2) * 25\<rfloor>)),
      OfferComparison.risk = (if i = 0 then Fin 68
                 else Fin (55 + of_int \<lfloor>random (4 * (i - 1) + 3) * 30\<rfloor>))\<rparr>"

text \<open>
  \<open>generateDemoData\<close>. The literal demo record of the source (scores, grade and the demo
  texts) is the parameter \<open>base\<close>. Neither \<open>JSON.parse\<close> is inside a \<open>try\<close>.
\<close>

definition generateDemoData ::
  "ResultsAnalysisData \<Rightarrow> (nat \<Rightarrow> real) \<Rightarrow> SessionStorage \<Rightarrow> js_error + ResultsAnalysisData" where
  "generateDemoData base random session =
     (case present (offergo_demo_analysis session) of
        Some demoAnalysis \<Rightarrow> JSON_parse demoAnalysis
      | None \<Rightarrow>
         (case (case present (offergo_submission session) of
                  Some submission \<Rightarrow> map_sum (\<lambda>e. e) Some (JSON_parse submission)
                | None \<Rightarrow> Inr None) of
            Inl e \<Rightarrow> Inl e
          | Inr parsedSubmission \<Rightarrow>
             (let offerCount = (case parsedSubmission of Some q \<Rightarrow> length (offers q) | None \<Rightarrow> 1)
              in if offerCount > 1
                 then (let names = (case parsedSubmission of
                                      Some q \<Rightarrow> map (\<lambda>x. stripOfferExt (fileName x)) (offers q)
                                    | None \<Rightarrow> [])
                       in Inr (base\<lparr>comparisonData :=
                                 map (\<lambda>(i, nm). demoComparisonRow random i nm)
                                     (zip [0 ..< length names] names)\<rparr>))
                 else Inr base)))"


section \<open>Results page: market comparison\<close>

text \<open>
  The four regular expressions of the extraction helpers:
  \<^item> \<open>MarketNumber\<close> is \<^verbatim>\<open>/market[^0-9-]*([\d,]+(?:\.\d+)?)/i\<close>,
  \<^item> \<open>OfferedAmount\<close> is \<^verbatim>\<open>/offered[^0-9-]*\$?([\d,]+(?:\.\d+)?)/i\<close>,
  \<^item> \<open>OfferAmount\<close> is \<^verbatim>\<open>/offer[^0-9-]*\$?([\d,]+(?:\.\d+)?)/i\<close>,
  \<^item> \<open>OfferNumber\<close> is \<^verbatim>\<open>/offer[^0-9-]*([\d,]+(?:\.\d+)?)/i\<close>.

  A matcher gives \<open>text.match(pattern)?.[1]\<close>, the first capture group of the first match,
  if there is a match. The extraction helpers take the matcher as a parameter, so what
  is proved of them holds for every regular-expression engine.
\<close>

datatype pattern = MarketNumber | OfferedAmount | OfferAmount | OfferNumber

type_synonym matcher = "pattern \<Rightarrow> string \<Rightarrow> string option"

definition is_digit :: "char \<Rightarrow> bool" where
  "is_digit c = (c \<in> set ''0123456789'')"

text \<open>
  The backtracking engine on these four patterns. \<open>numberAt\<close> matches the capture group
  at the start of a text: the longest run of digits and commas, then a dot with digits
  if there are any. \<open>amountAt\<close> puts the optional dollar sign before it. \<open>afterKeyword\<close> is
  the greedy \<^verbatim>\<open>[^0-9-]*\<close>: it first tries to take one more character and falls back to
  stopping where it is. \<open>searchKeyword\<close> tries every start position from the left; the
  keyword is compared without regard to ASCII case.
\<close>

definition numberAt :: "string \<Rightarrow> string option" where
  "numberAt t =
     (let run = takeWhile (\<lambda>c. is_digit c \<or> c = CHR '','') t;
          rest = dropWhile (\<lambda>c. is_digit c \<or> c = CHR '','') t
      in if run = [] then None
         else (case rest of
                 [] \<Rightarrow> Some run
               | c # r \<Rightarrow>
                   if c = CHR ''.'' \<and> takeWhile is_digit r \<noteq> []
                   then Some (run @ [c] @ takeWhile is_digit r)
                   else Some run))"

definition amountAt :: "bool \<Rightarrow> string \<Rightarrow> string option" where
  "amountAt dollar t =
     (case t of
        [] \<Rightarrow> None
      | c # r \<Rightarrow>
          if dollar \<and> c = CHR ''$''
          then (case numberAt r of Some g \<Rightarrow> Some g | None \<Rightarrow> numberAt t)
          else numberAt t)"

fun afterKeyword :: "bool \<Rightarrow> string \<Rightarrow> string option" where
  "afterKeyword dollar [] = None"
| "afterKeyword dollar (c # r) =
     (if \<not> is_digit c \<and> c \<noteq> CHR ''-''
      then (case afterKeyword dollar r of
              Some g \<Rightarrow> Some g
            | None \<Rightarrow> amountAt dollar (c # r))
      else amountAt dollar (c # r))"

fun searchKeyword :: "string \<Rightarrow> bool \<Rightarrow> string \<Rightarrow> string option" where
  "searchKeyword kw dollar [] = None"
| "searchKeyword kw dollar (c # r) =
     (case (if map lower_ascii (take (length kw) (c # r)) = kw
            then afterKeyword dollar (drop (length kw) (c # r)) else None) of
        Some g \<Rightarrow> Some g
      | None \<Rightarrow> searchKeyword kw dollar r)"

definition jsMatch :: matcher where
  "jsMatch p t =
     (case p of
        MarketNumber \<Rightarrow> searchKeyword ''market'' False t
      | OfferedAmount \<Rightarrow> searchKeyword ''offered'' True t
      | OfferAmount \<Rightarrow> searchKeyword ''offer'' True t
      | OfferNumber \<Rightarrow> searchKeyword ''offer'' False t)"

text \<open>Truthiness of a capture group that may be \<open>null\<close>: \<open>null\<close> and \<open>""\<close> are falsy.\<close>

fun truthy :: "string option \<Rightarrow> bool" where
  "truthy None = False"
| "truthy (Some g) = (g \<noteq> [])"

definition digits_value :: "string \<Rightarrow> nat" where
  "digits_value ds = foldl (\<lambda>a c. 10 * a + (of_char c - 48)) 0 ds"

text \<open>
  \<open>Number(text)\<close> on a text of digits, dots and minus signs: an optional sign, then
  digits with an optional fraction, or a dot with a fraction, read as the nearest
  double; anything else is \<open>NaN\<close>. \<open>parseNumber\<close> returns \<open>null\<close> unless the number is finite.
\<close>

definition unsigned_decimal :: "string \<Rightarrow> real option" where
  "unsigned_decimal t =
     (let ip = takeWhile is_digit t; rest = dropWhile is_digit t in
      case rest of
        [] \<Rightarrow> (if ip = [] then None else Some (real (digits_value ip)))
      | c # fp \<Rightarrow>
          if c = CHR ''.'' \<and> list_all is_digit fp \<and> (ip \<noteq> [] \<or> fp \<noteq> [])
          then Some (real (digits_value ip) + real (digits_value fp) / 10 ^ length fp)
          else None)"

definition Number_of :: "string \<Rightarrow> jsnum" where
  "Number_of t =
     (case t of
        [] \<Rightarrow> Fin 0
      | c # r \<Rightarrow>
          if c = CHR ''-''
          then (case unsigned_decimal r of Some x \<Rightarrow> fl64 (- x) | None \<Rightarrow> NaN)
          else (case unsigned_decimal t of Some x \<Rightarrow> fl64 x | None \<Rightarrow> NaN))"

definition parseNumber :: "string \<Rightarrow> real option" where
  "parseNumber v =
     (let cleaned = filter (\<lambda>c. is_digit c \<or> c = CHR ''.'' \<or> c = CHR ''-'') v in
      if cleaned = [] then None
      else (case Number_of cleaned of Fin x \<Rightarrow> Some x | _ \<Rightarrow> None))"

definition extractMarketTotal :: "matcher \<Rightarrow> WorkflowEvaluation option \<Rightarrow> js_error + real option" where
  "extractMarketTotal rx raw =
     (case raw of
        None \<Rightarrow> Inr None
      | Some ev \<Rightarrow>
         (case key_drivers ev of
            None \<Rightarrow> Inl (TypeError ''map'')
          | Some ds \<Rightarrow>
             (case find truthy (map (\<lambda>k. rx MarketNumber (label k)) ds) of
                Some (Some fromDrivers) \<Rightarrow> Inr (parseNumber fromDrivers)
              | _ \<Rightarrow>
                 (case one_paragraph_summary ev of
                    None \<Rightarrow> Inl (TypeError ''match'')
                  | Some summary \<Rightarrow>
                     (let fromSummary = rx MarketNumber summary in
                      if truthy fromSummary
                      then Inr (case fromSummary of Some g \<Rightarrow> parseNumber g | None \<Rightarrow> None)
                      else Inr None)))))"

definition extractOfferTotal :: "matcher \<Rightarrow> WorkflowEvaluation option \<Rightarrow> js_error + real option" where
  "extractOfferTotal rx raw =
     (case raw of
        None \<Rightarrow> Inr None
      | Some ev \<Rightarrow>
         (case one_paragraph_summary ev of
            None \<Rightarrow> Inl (TypeError ''match'')
          | Some summary \<Rightarrow>
             (let fromSummary = (case rx OfferedAmount summary of
                                   Some g \<Rightarrow> Some g
                                 | None \<Rightarrow> rx OfferAmount summary) in
              if truthy fromSummary
              then Inr (case fromSummary of Some g \<Rightarrow> parseNumber g | None \<Rightarrow> None)
              else (case key_drivers ev of
                 None \<Rightarrow> Inl (TypeError ''map'')
               | Some ds \<Rightarrow>
                  (case find truthy (map (\<lambda>k. rx OfferNumber (label k)) ds) of
                     Some (Some fromDrivers) \<Rightarrow> Inr (parseNumber fromDrivers)
                   | _ \<Rightarrow> Inr None)))))"

text \<open>\<open>(rawEval?.recommendation ?? "needs_more_info") === "accept" ? 0.95 : 1.2\<close>\<close>

definition marketRatio :: "WorkflowEvaluation option \<Rightarrow> real" where
  "marketRatio rawEval =
     (if (case rawEval of
            None \<Rightarrow> ''needs_more_info''
          | Some ev \<Rightarrow> (case WorkflowEvaluation.recommendation ev of
                         None \<Rightarrow> ''needs_more_info''
                       | Some r \<Rightarrow> r)) = ''accept''
      then 95 / 100 else 12 / 10)"

text \<open>
  The market derivation of the mount effect, in the order of the source. First the
  totals as far as they are known: from the parsed ingestion fields and the extraction
  helpers when \<open>offergo-ingest-parsed\<close> is stored, from the helpers alone otherwise.
\<close>

definition knownTotalsParsed ::
  "matcher \<Rightarrow> IngestParsed \<Rightarrow> WorkflowEvaluation option \<Rightarrow> js_error + real \<times> real" where
  "knownTotalsParsed rx ingested rawEval =
     (let base = (case base_salary ingested of Some b \<Rightarrow> b | None \<Rightarrow> 0);
          bonusPct = (case bonus_target ingested of Some b \<Rightarrow> b | None \<Rightarrow> 0);
          equity = (case equity_amount ingested of Some b \<Rightarrow> b | None \<Rightarrow> 0);
          offerTotal = base + base * (bonusPct / 100) + equity
      in case extractMarketTotal rx rawEval of
           Inl e \<Rightarrow> Inl e
         | Inr extractedMarket \<Rightarrow>
            (let marketTotal = (case extractedMarket of Some m \<Rightarrow> m | None \<Rightarrow> 0) in
             case extractOfferTotal rx rawEval of
               Inl e \<Rightarrow> Inl e
             | Inr extractedOffer \<Rightarrow>
                 Inr (case extractedOffer of
                        Some x \<Rightarrow> if offerTotal \<le> 0 \<and> x \<noteq> 0 \<and> x > 0 then x else offerTotal
                      | None \<Rightarrow> offerTotal,
                      marketTotal)))"

definition knownTotalsUnparsed ::
  "matcher \<Rightarrow> WorkflowEvaluation option \<Rightarrow> js_error + real \<times> real" where
  "knownTotalsUnparsed rx rawEval =
     (case extractOfferTotal rx rawEval of
        Inl e \<Rightarrow> Inl e
      | Inr extractedOffer \<Rightarrow>
         (case extractMarketTotal rx rawEval of
            Inl e \<Rightarrow> Inl e
          | Inr extractedMarket \<Rightarrow>
              Inr (case extractedOffer of Some x \<Rightarrow> x | None \<Rightarrow> 0,
                   case extractedMarket of Some m \<Rightarrow> m | None \<Rightarrow> 0)))"

text \<open>Then the fallback ratios; the two branches apply them in opposite orders.\<close>

definition fallbackParsed :: "WorkflowEvaluation option \<Rightarrow> real \<times> real \<Rightarrow> real \<times> real" where
  "fallbackParsed rawEval totals =
     (let offerTotal = fst totals;
          marketTotal = (if snd totals \<le> 0 \<and> offerTotal > 0
                         then of_int (round_half_up (offerTotal * marketRatio rawEval))
                         else snd totals);
          offerTotal' = (if offerTotal \<le> 0 \<and> marketTotal > 0
                         then of_int (round_half_up (marketTotal * (75 / 100)))
                         else offerTotal)
      in (offerTotal', marketTotal))"

definition fallbackUnparsed :: "WorkflowEvaluation option \<Rightarrow> real \<times> real \<Rightarrow> real \<times> real" where
  "fallbackUnparsed rawEval totals =
     (let marketTotal = snd totals;
          offerTotal = (if fst totals \<le> 0 \<and> marketTotal > 0
                        then of_int (round_half_up (marketTotal * (75 / 100)))
                        else fst totals);
          marketTotal' = (if marketTotal \<le> 0 \<and> offerTotal > 0
                          then of_int (round_half_up (offerTotal * marketRatio rawEval))
                          else marketTotal)
      in (offerTotal, marketTotal'))"

text \<open>The totals before the fallback and after it, for a stored ingestion item or none.\<close>

definition knownTotals ::
  "matcher \<Rightarrow> IngestParsed stored option \<Rightarrow> WorkflowEvaluation option \<Rightarrow> js_error + real \<times> real" where
  "knownTotals rx rawParsed rawEval =
     (case present rawParsed of
        Some raw \<Rightarrow>
          (case JSON_parse raw of
             Inl e \<Rightarrow> Inl e
           | Inr ingested \<Rightarrow> knownTotalsParsed rx ingested rawEval)
      | None \<Rightarrow> knownTotalsUnparsed rx rawEval)"

definition derivedTotals ::
  "matcher \<Rightarrow> IngestParsed stored option \<Rightarrow> WorkflowEvaluation option \<Rightarrow> js_error + real \<times> real" where
  "derivedTotals rx rawParsed rawEval =
     (case knownTotals rx rawParsed rawEval of
        Inl e \<Rightarrow> Inl e
      | Inr totals \<Rightarrow>
          Inr (if present rawParsed \<noteq> None then fallbackParsed rawEval totals
               else fallbackUnparsed rawEval totals))"

text \<open>
  The final \<open>if\<close> of either branch: the value given to \<open>setOfferVsMarket\<close>, if it is called.
  With a stored ingestion item everything runs inside \<open>try\<close> and an exception is dropped;
  without one it leaves the effect.
\<close>

definition marketComparison ::
  "matcher \<Rightarrow> IngestParsed stored option \<Rightarrow> WorkflowEvaluation option
     \<Rightarrow> js_error + OfferVsMarket option" where
  "marketComparison rx rawParsed rawEval =
     (case derivedTotals rx rawParsed rawEval of
        Inl e \<Rightarrow> (if present rawParsed \<noteq> None then Inr None else Inl e)
      | Inr totals \<Rightarrow>
          (if fst totals > 0 \<and> snd totals > 0
           then Inr (Some \<lparr>offerTotal = fst totals, marketTotal = snd totals\<rparr>)
           else Inr None))"

text \<open>The evaluation that the effect reads back: a value that fails to parse is dropped.\<close>

definition loadWorkflowEval :: "SessionStorage \<Rightarrow> WorkflowEvaluation option" where
  "loadWorkflowEval session =
     (case present (offergo_workflow_eval session) of
        Some raw \<Rightarrow> (case JSON_parse raw of Inl e \<Rightarrow> None | Inr ev \<Rightarrow> Some ev)
      | None \<Rightarrow> None)"

text \<open>The mount effect of the page: an exception that leaves it is the result \<open>Inl\<close>.\<close>

definition mountResults ::
  "ResultsAnalysisData \<Rightarrow> (nat \<Rightarrow> real) \<Rightarrow> matcher \<Rightarrow> SessionStorage \<Rightarrow> ResultsState
     \<Rightarrow> js_error + ResultsState" where
  "mountResults base random rx session st =
     (case generateDemoData base random session of
        Inl e \<Rightarrow> Inl e
      | Inr d \<Rightarrow>
         (let st1 = st\<lparr>data := Some d\<rparr>;
              st2 = (case present (offergo_submission session) of
                       Some rawSubmission \<Rightarrow>
                         (case JSON_parse rawSubmission of
                            Inl e \<Rightarrow> st1
                          | Inr q \<Rightarrow>
                             (let st' = st1\<lparr>ResultsState.priorities :=
                                             Some (SubmissionSnapshot.priorities q)\<rparr>
                              in case SubmissionSnapshot.backendOfferId q of
                                   Some n \<Rightarrow> st'\<lparr>ResultsState.backendOfferId := Some n\<rparr>
                                 | None \<Rightarrow> st'))
                     | None \<Rightarrow> st1);
              rawEval = loadWorkflowEval session;
              st3 = (case rawEval of Some ev \<Rightarrow> st2\<lparr>workflowEval := Some ev\<rparr> | None \<Rightarrow> st2)
          in case marketComparison rx (offergo_ingest_parsed session) rawEval of
               Inl e \<Rightarrow> Inl e
             | Inr None \<Rightarrow> Inr st3
             | Inr (Some c) \<Rightarrow> Inr (st3\<lparr>offerVsMarket := Some c\<rparr>)))"

text \<open>
  The comparison panel is part of what the component returns when \<open>data\<close> is set, under
  \<open>offerVsMarket &&\<close>.
\<close>

definition comparisonPanelShown :: "ResultsState \<Rightarrow> bool" where
  "comparisonPanelShown st = (data st \<noteq> None \<and> offerVsMarket st \<noteq> None)"


section \<open>Results page: chat\<close>

text \<open>
  Strings hold code units below 256; among these \<open>trim\<close> removes tab, line feed,
  vertical tab, form feed, carriage return, space and no-break space.
\<close>

definition is_space :: "char \<Rightarrow> bool" where
  "is_space c = (c \<in> set [CHR 0x09, CHR 0x0A, CHR 0x0B, CHR 0x0C, CHR 0x0D, CHR 0x20, CHR 0xA0])"

definition trim :: "string \<Rightarrow> string" where
  "trim t = rev (dropWhile is_space (rev (dropWhile is_space t)))"

record ChatRequest =
  offerId :: int
  message :: string

record ChatEffects =
  notified :: "toast list"
  requests :: "ChatRequest list"

text \<open>
  The \<open>try\<close> block of \<open>sendMessage\<close>: the answer or the message of the thrown error, and the
  requests sent. \<open>network\<close> gives the outcome of the request to the chat endpoint.
\<close>

definition askBackend ::
  "(ChatRequest \<Rightarrow> string response) \<Rightarrow> int option \<Rightarrow> string \<Rightarrow> (string + string) \<times> ChatRequest list" where
  "askBackend network offerIdState txt =
     (case offerIdState of
        None \<Rightarrow> (Inl ''Missing offer context for chat. Re-run analysis from Submit page.'', [])
      | Some n \<Rightarrow>
          if n = 0
          then (Inl ''Missing offer context for chat. Re-run analysis from Submit page.'', [])
          else (let req = \<lparr>offerId = n, message = txt\<rparr> in
                case network req of
                  Rejected m \<Rightarrow> (Inl (case m of Some t \<Rightarrow> t | None \<Rightarrow> ''Chat failed''), [req])
                | NotOk t \<Rightarrow> (Inl t, [req])
                | Ok answer \<Rightarrow> (Inr answer, [req])))"

definition sendMessage ::
  "(ChatRequest \<Rightarrow> string response) \<Rightarrow> ResultsState \<Rightarrow> ResultsState \<times> ChatEffects" where
  "sendMessage network st =
     (let txt = trim (input st) in
      if txt = [] then (st, \<lparr>notified = [], requests = []\<rparr>)
      else
        (let st1 = st\<lparr>chat := chat st @ [\<lparr>role = ''user'', content = txt\<rparr>],
                      input := [], typing := True\<rparr>
         in case askBackend network (ResultsState.backendOfferId st) txt of
              (Inr answer, sent) \<Rightarrow>
                (st1\<lparr>chat := chat st1 @ [\<lparr>role = ''ai'', content = answer\<rparr>], typing := False\<rparr>,
                 \<lparr>notified = [], requests = sent\<rparr>)
            | (Inl msg, sent) \<Rightarrow>
                (st1\<lparr>chat := chat st1 @
                        [\<lparr>role = ''ai'',
                          content = ''I couldn't reach Nemotron chat right now. '' @ msg\<rparr>],
                      typing := False\<rparr>,
                 \<lparr>notified = [\<lparr>title = ''Nemotron chat unavailable'', description = Literal msg\<rparr>],
                  requests = sent\<rparr>)))"


section \<open>The specification's formulas\<close>

text \<open>
  The score formulas as the specification words them, on integers, with mathematical
  rounding and an explicit three-way clamp; the order of the letter grades; and the
  recommendation penalties as a table.
\<close>

definition grade_rank :: "string \<Rightarrow> nat" where
  "grade_rank g =
     (if g = ''A'' then 5 else if g = ''A-'' then 4 else if g = ''B+'' then 3
      else if g = ''B'' then 2 else if g = ''C'' then 1 else 0)"

definition spec_clamp :: "int \<Rightarrow> int \<Rightarrow> int \<Rightarrow> int" where
  "spec_clamp lo hi x = (if x < lo then lo else if hi < x then hi else x)"

definition spec_penalty :: "string \<rightharpoonup> int" where
  "spec_penalty = [''needs_more_info'' \<mapsto> 18, ''renegotiate'' \<mapsto> 8, ''accept'' \<mapsto> 0]"

definition spec_overall :: "real \<Rightarrow> int" where
  "spec_overall s = spec_clamp 0 100 (round (s * 10))"

definition spec_confidence :: "real \<Rightarrow> int" where
  "spec_confidence c = spec_clamp 0 100 (round (c * 100))"

definition spec_risk :: "nat \<Rightarrow> int \<Rightarrow> int \<Rightarrow> int" where
  "spec_risk n penalty conf =
     spec_clamp 12 95 (round (76 - 7 * real n - real_of_int penalty + 0.1 * real_of_int conf))"

definition spec_category :: "int \<Rightarrow> int \<Rightarrow> int \<Rightarrow> int \<Rightarrow> int \<Rightarrow> int" where
  "spec_category offset lo hi ov rating = spec_clamp lo hi (ov + offset + (rating - 3) * 6)"

text \<open>
  The first two formulas with the product of doubles in the place of the product of
  real numbers: the raw value is read as a double, multiplied as doubles are, rounded
  and clamped. An infinite product is clamped to the bound on its side.
\<close>

definition spec_round_clamp :: "int \<Rightarrow> int \<Rightarrow> jsnum \<Rightarrow> int" where
  "spec_round_clamp lo hi v =
     (case v of Fin p \<Rightarrow> spec_clamp lo hi (round p) | PosInf \<Rightarrow> hi | NegInf \<Rightarrow> lo | NaN \<Rightarrow> lo)"

definition double_overall :: "real \<Rightarrow> int" where
  "double_overall s = spec_round_clamp 0 100 (jsmul (fl64 s) (Fin 10))"

definition double_confidence :: "real \<Rightarrow> int" where
  "double_confidence c = spec_round_clamp 0 100 (jsmul (fl64 c) (Fin 100))"

text \<open>The ratings that the sliders of the page can give.\<close>

definition ratingsInRange :: "Priorities \<Rightarrow> bool" where
  "ratingsInRange pr =
     (1 \<le> Priorities.financial pr \<and> Priorities.financial pr \<le> 5 \<and>
      1 \<le> Priorities.career pr \<and> Priorities.career pr \<le> 5 \<and>
      1 \<le> Priorities.lifestyle pr \<and> Priorities.lifestyle pr \<le> 5 \<and>
      1 \<le> Priorities.alignment pr \<and> Priorities.alignment pr \<le> 5)"


section \<open>Example values\<close>

definition example_eval :: WorkflowEvaluation where
  "example_eval = \<lparr>
     score = Some (87 / 10),
     WorkflowEvaluation.recommendation = Some ''accept'',
     WorkflowEvaluation.confidence = Some (82 / 100),
     key_drivers = Some [\<lparr>label = ''Strong base'', impact = ''positive''\<rparr>],
     negotiation_targets = Some [],
     WorkflowEvaluation.risks = Some [],
     followup_questions = Some [],
     one_paragraph_summary = Some ''Solid offer.'' \<rparr>"

definition example_priorities :: Priorities where
  "example_priorities = \<lparr>Priorities.financial = 5, Priorities.career = 3,
     Priorities.lifestyle = 3, Priorities.alignment = 3\<rparr>"


text \<open>
  The invariant of the offer list: identifiers are distinct, and a non-empty list has
  exactly one current offer. The example list is what two uploads, a selection of the
  first offer and its removal leave.
\<close>

definition listInvariant :: "UploadedOffer list \<Rightarrow> bool" where
  "listInvariant xs =
     (distinct (map UploadedOffer.id xs) \<and>
      (xs \<noteq> [] \<longrightarrow> length (filter UploadedOffer.isCurrent xs) = 1))"

definition example_offers :: "UploadedOffer list" where
  "example_offers =
     removeOffer ''id-1''
       (selectCurrent ''id-1''
          (handleFileUpload ''id-2'' (Some ''b.pdf'')
             (handleFileUpload ''id-1'' (Some ''a.pdf'') [])))"

text \<open>
  The message of the error that \<open>sendMessage\<close> throws without an offer identifier, and a
  chat endpoint that always answers.
\<close>

definition missingOfferMessage :: string where
  "missingOfferMessage = ''Missing offer context for chat. Re-run analysis from Submit page.''"

definition example_network :: "ChatRequest \<Rightarrow> string response" where
  "example_network req = Ok ''You could ask for a higher base.''"



text \<open>
  Example inputs. \<open>example_base\<close> stands for the demo record of \<open>generateDemoData\<close>, with
  the scores of the source and shortened texts; \<open>market_eval\<close> is the example evaluation
  with a market figure in its summary.
\<close>

definition example_base :: ResultsAnalysisData where
  "example_base = \<lparr>
     overallScore = Fin 87,
     categoryScores = \<lparr>CategoryScores.financial = Fin 92, CategoryScores.career = Fin 81,
       CategoryScores.lifestyle = Fin 74, CategoryScores.alignment = Fin 85,
       CategoryScores.risk = Fin 68\<rparr>,
     grade = ''A-'',
     strengths = [''Strong 401(k) match and health benefits reduce hidden cost exposure.''],
     risks = [''Non-compete clause could limit lateral moves for 12 months post-departure.''],
     financialProjection = Some ''Projected compensation.'',
     negotiationInsights = ''Consider negotiating the sign-on clawback down to 6 months.'',
     comparisonData = [],
     confidence = Fin 82,
     recommendation = Some ''accept'' \<rparr>"

definition example_random :: "nat \<Rightarrow> real" where
  "example_random k = 1 / 2"


definition example_parsed :: IngestParsed where
  "example_parsed = \<lparr>base_salary = Some 100000, bonus_target = Some 10, equity_amount = Some 5000\<rparr>"

definition emptySession :: SessionStorage where
  "emptySession = \<lparr>offergo_submission = None, offergo_demo_analysis = None,
     offergo_workflow_eval = None, offergo_ingest_parsed = None,
     offergo_market_snapshot = None, offergo_demo_user = None\<rparr>"

definition example_session :: SessionStorage where
  "example_session = emptySession\<lparr>offergo_workflow_eval := Some (Json example_eval),
     offergo_ingest_parsed := Some (Json example_parsed)\<rparr>"

definition example_market :: MarketSnapshotResponse where
  "example_market = \<lparr>provider = ''databricks'', sample_size = 40, market_base_median = 110000,
     market_bonus_avg = 9000, market_signing_avg = 5000, market_total_est = 124000,
     offer_total_est = 115000, offer_vs_market_ratio = 115 / 124\<rparr>"

definition submitted_offers :: "UploadedOffer list" where
  "submitted_offers = [\<lparr>UploadedOffer.id = ''id-1'', file_name = ''offer.pdf'',
     UploadedOffer.isCurrent = True\<rparr>]"

definition example_env :: "WorkflowEvaluation \<Rightarrow> SubmitEnv" where
  "example_env ev = \<lparr>ingest = Ok \<lparr>offer_id = Some 7, parsed = Some example_parsed\<rparr>,
     evaluate = Ok ev, market = Ok example_market\<rparr>"

definition emptyLocal :: LocalStorage where
  "emptyLocal = \<lparr>offergo_profile = None\<rparr>"

text \<open>Stored texts that are not JSON, under the two keys that \<open>generateDemoData\<close> reads.\<close>

definition corrupt_analysis_session :: SessionStorage where
  "corrupt_analysis_session = emptySession\<lparr>offergo_demo_analysis := Some (Text ''{overallScore: 87'')\<rparr>"

definition corrupt_submission_session :: SessionStorage where
  "corrupt_submission_session = emptySession\<lparr>offergo_submission := Some (Text ''{offers: ['')\<rparr>"

text \<open>
  The doubles nearest to 0.1, 8.7, 0.82, 8.45 and 0.145, and an evaluation whose two
  numbers fall on a rounding tie: its score is the double that the text \<open>8.45\<close> denotes,
  its confidence is written \<open>0.145\<close>.
\<close>

definition tenth :: real where
  "tenth = 3602879701896397 / 36028797018963968"

definition double_8_7 :: real where
  "double_8_7 = 2448832297382707 / 281474976710656"

definition double_0_82 :: real where
  "double_0_82 = 7385903388887613 / 9007199254740992"

definition double_8_45 :: real where
  "double_8_45 = 2378463553205043 / 281474976710656"

definition double_0_145 :: real where
  "double_0_145 = 5224175567749775 / 36028797018963968"

definition tie_eval :: WorkflowEvaluation where
  "tie_eval = example_eval\<lparr>score := Some double_8_45,
     WorkflowEvaluation.confidence := Some (145 / 1000)\<rparr>"


section \<open>Rounding to binary64\<close>

lemma round_half_even_cases:
  "round_half_even y = \<lfloor>y\<rfloor> \<or> (round_half_even y = \<lfloor>y\<rfloor> + 1 \<and> of_int \<lfloor>y\<rfloor> < y)"
  unfolding round_half_even_def Let_def by auto

lemma round_half_even_lower:
  assumes "of_int m \<le> y"
  shows "m \<le> round_half_even y"
proof -
  from assms have "m \<le> \<lfloor>y\<rfloor>" by (simp add: le_floor_iff)
  with round_half_even_cases [of y] show ?thesis by auto
qed

lemma round_half_even_upper:
  assumes "y \<le> of_int m"
  shows "round_half_even y \<le> m"
proof -
  from assms have f: "\<lfloor>y\<rfloor> \<le> m" by (simp add: floor_le_iff)
  from round_half_even_cases [of y] show ?thesis
  proof
    assume "round_half_even y = \<lfloor>y\<rfloor>"
    with f show ?thesis by simp
  next
    assume h: "round_half_even y = \<lfloor>y\<rfloor> + 1 \<and> of_int \<lfloor>y\<rfloor> < y"
    with assms have "real_of_int \<lfloor>y\<rfloor> < of_int m" by linarith
    then have "\<lfloor>y\<rfloor> < m" by simp
    with h show ?thesis by simp
  qed
qed

lemma binary_exponent_small:
  assumes "\<bar>z\<bar> < 2 ^ 40"
  shows "binary_exponent z \<le> 39"
proof (cases "1 \<le> \<bar>z\<bar>")
  case True
  have "\<lfloor>\<bar>z\<bar>\<rfloor> < 2 ^ 40"
    using assms by (simp add: floor_less_iff)
  then have "bitlen \<lfloor>\<bar>z\<bar>\<rfloor> \<le> 40"
    by (simp add: bitlen_le_iff_power)
  with True show ?thesis by (simp add: binary_exponent_def)
next
  case False
  then show ?thesis
    using bitlen_nonneg [of "\<lceil>1 / \<bar>z\<bar>\<rceil> - 1"] by (simp add: binary_exponent_def)
qed


lemma fl64_grid:
  assumes "\<bar>z\<bar> < 2 ^ 40"
  shows "\<exists>v. fl64 z = Fin v \<and>
           (\<forall>k. real_of_int k / 16 \<le> z \<longrightarrow> real_of_int k / 16 \<le> v) \<and>
           (\<forall>k. z \<le> real_of_int k / 16 \<longrightarrow> v \<le> real_of_int k / 16)"
proof (cases "z = 0")
  case True
  then show ?thesis by (simp add: fl64_def)
next
  case False
  define E where "E = max (binary_exponent z) (- 1022)"
  define j where "j = nat (52 - E)"
  define R where "R = round_half_even (z * 2 ^ j)"
  define r where "r = real_of_int R / 2 ^ j"
  have "E \<le> 39" using binary_exponent_small [OF assms] by (simp add: E_def)
  then have j: "13 \<le> j" and q: "pow2 (E - 52) = 1 / 2 ^ j"
    by (simp_all add: j_def pow2_def)
  define i where "i = j - 4"
  have ji: "j = i + 4" using j by (simp add: i_def)
  have split: "(2::real) ^ j = 2 ^ i * 16" by (simp add: ji power_add)
  have lower: "real_of_int k / 16 \<le> r" if "real_of_int k / 16 \<le> z" for k
  proof -
    have "real_of_int (k * 2 ^ i) = real_of_int k / 16 * 2 ^ j" by (simp add: split)
    also have "\<dots> \<le> z * 2 ^ j" using that by (simp add: mult_right_mono)
    finally have "k * 2 ^ i \<le> R" unfolding R_def by (rule round_half_even_lower)
    then have "real_of_int (k * 2 ^ i) \<le> real_of_int R" by (simp only: of_int_le_iff)
    then have "real_of_int (k * 2 ^ i) / 2 ^ j \<le> r" by (simp add: r_def divide_right_mono)
    then show ?thesis by (simp add: split)
  qed
  have upper: "r \<le> real_of_int k / 16" if "z \<le> real_of_int k / 16" for k
  proof -
    have "z * 2 ^ j \<le> real_of_int k / 16 * 2 ^ j" using that by (simp add: mult_right_mono)
    also have "\<dots> = real_of_int (k * 2 ^ i)" by (simp add: split)
    finally have "R \<le> k * 2 ^ i" unfolding R_def by (rule round_half_even_upper)
    then have "real_of_int R \<le> real_of_int (k * 2 ^ i)" by (simp only: of_int_le_iff)
    then have "r \<le> real_of_int (k * 2 ^ i) / 2 ^ j" by (simp add: r_def divide_right_mono)
    then show ?thesis by (simp add: split)
  qed
  have zl: "real_of_int (- (2 ^ 44)) / 16 \<le> z" and zu: "z \<le> real_of_int (2 ^ 44) / 16"
    using assms by simp_all
  have bounds: "- (2 ^ 40) \<le> r" "r \<le> 2 ^ 40"
    using lower [OF zl] upper [OF zu] by simp_all
  have big: "(2::real) ^ 40 < 2 ^ 1024" by (simp add: power_strict_increasing)
  have "fl64 z = Fin r"
    using False bounds big
    by (simp add: fl64_def Let_def E_def [symmetric] q R_def [symmetric] r_def)
  with lower upper show ?thesis by blast
qed


lemma fl64_sixteenths:
  assumes "\<bar>real_of_int k / 16\<bar> < 2 ^ 40"
  shows "fl64 (real_of_int k / 16) = Fin (real_of_int k / 16)"
proof -
  from fl64_grid [OF assms] obtain v where v: "fl64 (real_of_int k / 16) = Fin v"
    and lo: "\<forall>m. real_of_int m / 16 \<le> real_of_int k / 16 \<longrightarrow> real_of_int m / 16 \<le> v"
    and hi: "\<forall>m. real_of_int k / 16 \<le> real_of_int m / 16 \<longrightarrow> v \<le> real_of_int m / 16"
    by blast
  from lo hi have "real_of_int k / 16 \<le> v" "v \<le> real_of_int k / 16" by blast+
  with v show ?thesis by simp
qed

lemma fl64_int:
  assumes "\<bar>k\<bar> < 2 ^ 40"
  shows "fl64 (real_of_int k) = Fin (real_of_int k)"
proof -
  from assms have "\<bar>real_of_int k\<bar> < 2 ^ 40"
    by (metis of_int_abs of_int_less_numeral_power_cancel_iff)
  then show ?thesis using fl64_sixteenths [of "k * 16"] by simp
qed

lemma fl64_not_NaN: "fl64 x \<noteq> NaN"
  by (simp add: fl64_def Let_def)

lemma jsadd_int:
  "\<bar>a + b\<bar> < 2 ^ 40 \<Longrightarrow> jsadd (Fin (of_int a)) (Fin (of_int b)) = Fin (of_int (a + b))"
  using fl64_int [of "a + b"] by simp

lemma jssub_int:
  "\<bar>a - b\<bar> < 2 ^ 40 \<Longrightarrow> jssub (Fin (of_int a)) (Fin (of_int b)) = Fin (of_int (a - b))"
  using fl64_int [of "a - b"] by (simp add: jssub_def)

lemma jsmul_int:
  "\<bar>a * b\<bar> < 2 ^ 40 \<Longrightarrow> jsmul (Fin (of_int a)) (Fin (of_int b)) = Fin (of_int (a * b))"
  using fl64_int [of "a * b"] by simp

lemma tenth_bounds: "1 / 10 < tenth" "tenth < 1 / 10 + 1 / 100000"
  by (simp_all add: tenth_def)

lemma fl64_between:
  assumes "\<bar>z\<bar> < 2 ^ 40" and "real_of_int a / 16 \<le> z" and "z \<le> real_of_int b / 16"
  shows "\<exists>v. fl64 z = Fin v \<and> real_of_int a / 16 \<le> v \<and> v \<le> real_of_int b / 16"
  using fl64_grid [OF assms(1)] assms(2,3) by blast


lemma two_roundings:
  assumes K: "\<bar>K\<bar> \<le> 2 ^ 36" and a: "0 \<le> a" and b: "b \<le> 176"
    and lo: "real_of_int a / 16 \<le> real_of_int c * tenth"
    and hi: "real_of_int c * tenth \<le> real_of_int b / 16"
  shows "\<exists>v. jsadd (Fin (of_int K)) (jsmul (Fin (of_int c)) (Fin tenth)) = Fin v \<and>
           real_of_int K + real_of_int a / 16 \<le> v \<and> v \<le> real_of_int K + real_of_int b / 16"
proof -
  let ?P = "real_of_int c * tenth"
  have ra: "0 \<le> real_of_int a" and rb: "real_of_int b \<le> 176"
    using a b by simp_all
  have rK: "\<bar>real_of_int K\<bar> \<le> 2 ^ 36"
    using K by (metis of_int_abs of_int_le_numeral_power_cancel_iff)
  have "\<bar>?P\<bar> < 2 ^ 40" using lo hi ra rb by simp
  from fl64_between [OF this lo hi] obtain w where w: "fl64 ?P = Fin w"
    and wl: "real_of_int a / 16 \<le> w" and wu: "w \<le> real_of_int b / 16" by blast
  have small: "\<bar>real_of_int K + w\<bar> < 2 ^ 40" using rK wl wu ra rb by simp
  have l2: "real_of_int (16 * K + a) / 16 \<le> real_of_int K + w" using wl by simp
  have u2: "real_of_int K + w \<le> real_of_int (16 * K + b) / 16" using wu by simp
  from fl64_between [OF small l2 u2] obtain v where "fl64 (real_of_int K + w) = Fin v"
    and "real_of_int (16 * K + a) / 16 \<le> v" and "v \<le> real_of_int (16 * K + b) / 16" by blast
  then show ?thesis using w by simp
qed

lemma risk_sum:
  assumes c: "0 \<le> c" "c \<le> 100" and K: "\<bar>K\<bar> \<le> 2 ^ 36"
  shows "\<exists>v. jsadd (Fin (of_int K)) (jsmul (Fin (of_int c)) (Fin tenth)) = Fin v \<and>
           round_half_up v = round (real_of_int K + real_of_int c / 10)"
proof -
  define x where "x = c div 10"
  define t where "t = c mod 10"
  define P where "P = real_of_int c * tenth"
  define D where "D = real_of_int c / 10"
  have ct: "c = 10 * x + t" and t: "0 \<le> t" "t \<le> 9" and x: "0 \<le> x" "x \<le> 10"
    using c by (auto simp: x_def t_def)
  have D: "D = real_of_int x + real_of_int t / 10" by (simp add: D_def ct)
  have rt: "0 \<le> real_of_int t" "real_of_int t \<le> 9" using t by simp_all
  have rc0: "0 \<le> real_of_int c" "real_of_int c \<le> 100" using c by simp_all
  have "real_of_int c * (1 / 10) \<le> real_of_int c * tenth"
    by (rule mult_left_mono) (use tenth_bounds(1) rc0(1) in simp_all)
  then have pl: "D \<le> P" by (simp add: D_def P_def)
  have "real_of_int c * tenth \<le> real_of_int c * (1 / 10 + 1 / 100000)"
    by (rule mult_left_mono) (use tenth_bounds(2) rc0(1) in simp_all)
  also have "\<dots> = real_of_int c / 10 + real_of_int c / 100000" by (simp add: algebra_simps)
  also have "\<dots> \<le> real_of_int c / 10 + 1 / 1000" using rc0(2) by simp
  finally have pu: "P \<le> D + 1 / 1000" by (simp add: D_def P_def)
  have x0: "0 \<le> 16 * x" "0 \<le> 16 * x + 8" "0 \<le> 16 * x + 9"
    and x1: "16 * x + 7 \<le> 176" "16 * x + 9 \<le> 176" "16 * x + 15 \<le> 176"
    using x by simp_all
  consider "t \<le> 4" | "t = 5" | "6 \<le> t" by linarith
  then show ?thesis
  proof cases
    case 1
    then have t4: "real_of_int t \<le> 4" by simp
    have lo: "real_of_int (16 * x) / 16 \<le> P" using pl D rt by simp
    have hi: "P \<le> real_of_int (16 * x + 7) / 16" using pu D t4 by simp
    from two_roundings [OF K x0(1) x1(1) lo [unfolded P_def] hi [unfolded P_def]] obtain v
      where v: "jsadd (Fin (of_int K)) (jsmul (Fin (of_int c)) (Fin tenth)) = Fin v"
        and vl: "real_of_int K + real_of_int (16 * x) / 16 \<le> v"
        and vu: "v \<le> real_of_int K + real_of_int (16 * x + 7) / 16" by blast
    have "round_half_up v = K + x"
      unfolding round_half_up_def using vl vu by (intro floor_unique) (simp_all add: add_divide_distrib)
    moreover have "round (real_of_int K + D) = K + x"
      unfolding round_def using D rt t4 by (intro floor_unique) (simp_all add: add_divide_distrib)
    ultimately show ?thesis using v by (simp add: D_def)
  next
    case 2
    then have t5: "real_of_int t = 5" by simp
    have lo: "real_of_int (16 * x + 8) / 16 \<le> P" using pl D t5 by simp
    have hi: "P \<le> real_of_int (16 * x + 9) / 16" using pu D t5 by simp
    from two_roundings [OF K x0(2) x1(2) lo [unfolded P_def] hi [unfolded P_def]] obtain v
      where v: "jsadd (Fin (of_int K)) (jsmul (Fin (of_int c)) (Fin tenth)) = Fin v"
        and vl: "real_of_int K + real_of_int (16 * x + 8) / 16 \<le> v"
        and vu: "v \<le> real_of_int K + real_of_int (16 * x + 9) / 16" by blast
    have "round_half_up v = K + x + 1"
      unfolding round_half_up_def using vl vu by (intro floor_unique) (simp_all add: add_divide_distrib)
    moreover have "round (real_of_int K + D) = K + x + 1"
      unfolding round_def using D t5 by (intro floor_unique) (simp_all add: add_divide_distrib)
    ultimately show ?thesis using v by (simp add: D_def)
  next
    case 3
    then have t6: "6 \<le> real_of_int t" by simp
    have lo: "real_of_int (16 * x + 9) / 16 \<le> P" using pl D t6 by simp
    have hi: "P \<le> real_of_int (16 * x + 15) / 16" using pu D rt by simp
    from two_roundings [OF K x0(3) x1(3) lo [unfolded P_def] hi [unfolded P_def]] obtain v
      where v: "jsadd (Fin (of_int K)) (jsmul (Fin (of_int c)) (Fin tenth)) = Fin v"
        and vl: "real_of_int K + real_of_int (16 * x + 9) / 16 \<le> v"
        and vu: "v \<le> real_of_int K + real_of_int (16 * x + 15) / 16" by blast
    have "round_half_up v = K + x + 1"
      unfolding round_half_up_def using vl vu by (intro floor_unique) (simp_all add: add_divide_distrib)
    moreover have "round (real_of_int K + D) = K + x + 1"
      unfolding round_def using D rt t6 by (intro floor_unique) (simp_all add: add_divide_distrib)
    ultimately show ?thesis using v by (simp add: D_def)
  qed
qed

lemma pow2_powr: "pow2 k = 2 powr real_of_int k"
proof (cases "0 \<le> k")
  case True
  then have "2 powr real_of_int k = 2 powr real (nat k)" by simp
  also have "\<dots> = 2 ^ nat k" by (simp only: powr_realpow zero_less_numeral)
  finally show ?thesis using True by (simp add: pow2_def)
next
  case False
  then have "real_of_int k = - real (nat (- k))" by simp
  then have "2 powr real_of_int k = 1 / 2 powr real (nat (- k))"
    by (simp only: powr_minus_divide)
  also have "\<dots> = 1 / 2 ^ nat (- k)" by (simp only: powr_realpow zero_less_numeral)
  finally show ?thesis using False by (simp add: pow2_def)
qed

lemma pow2_pos: "0 < pow2 k"
  by (simp add: pow2_powr)

lemma pow2_mono: "i \<le> j \<Longrightarrow> pow2 i \<le> pow2 j"
  by (simp add: pow2_powr)

lemma binary_exponent_bounds:
  assumes "x \<noteq> 0"
  shows "pow2 (binary_exponent x) \<le> \<bar>x\<bar> \<and> \<bar>x\<bar> < pow2 (binary_exponent x + 1)"
proof (cases "1 \<le> \<bar>x\<bar>")
  case True
  define n where "n = \<lfloor>\<bar>x\<bar>\<rfloor>"
  have n: "0 < n" using True by (simp add: n_def)
  have e: "binary_exponent x = bitlen n - 1" using True by (simp add: binary_exponent_def n_def)
  from bitlen_bounds [OF n] have lo: "2 ^ nat (bitlen n - 1) \<le> n" and hi: "n < 2 ^ nat (bitlen n)"
    by simp_all
  have b: "1 \<le> bitlen n" using n by (simp add: bitlen_alt_def) 
  have "real_of_int (2 ^ nat (bitlen n - 1)) \<le> real_of_int n" using lo by (simp only: of_int_le_iff)
  also have "real_of_int n \<le> \<bar>x\<bar>" by (simp add: n_def)
  finally have l: "pow2 (bitlen n - 1) \<le> \<bar>x\<bar>" using b by (simp add: pow2_def)
  from hi have "n + 1 \<le> 2 ^ nat (bitlen n)" by simp
  then have "real_of_int (n + 1) \<le> real_of_int (2 ^ nat (bitlen n))" by (simp only: of_int_le_iff)
  moreover have "\<bar>x\<bar> < real_of_int (n + 1)" by (simp add: n_def)
  ultimately have "\<bar>x\<bar> < pow2 (bitlen n)" using b by (simp add: pow2_def)
  with l show ?thesis by (simp add: e)
next
  case False
  define y where "y = 1 / \<bar>x\<bar>"
  define m where "m = \<lceil>y\<rceil> - 1"
  have x: "0 < \<bar>x\<bar>" "\<bar>x\<bar> < 1" using assms False by simp_all
  then have y: "1 < y" by (simp add: y_def)
  then have m: "0 < m" by (simp add: m_def)
  have my: "real_of_int m < y" "y \<le> real_of_int m + 1" by (simp_all add: m_def) linarith+
  have e: "binary_exponent x = - bitlen m" using False by (simp add: binary_exponent_def m_def y_def)
  from bitlen_bounds [OF m] have lo: "2 ^ nat (bitlen m - 1) \<le> m" and hi: "m < 2 ^ nat (bitlen m)"
    by simp_all
  have b: "1 \<le> bitlen m" using m by (simp add: bitlen_alt_def)
  from hi have "m + 1 \<le> 2 ^ nat (bitlen m)" by simp
  then have "real_of_int (m + 1) \<le> real_of_int (2 ^ nat (bitlen m))" by (simp only: of_int_le_iff)
  with my(2) have yu: "y \<le> 2 ^ nat (bitlen m)" by simp
  have "real_of_int (2 ^ nat (bitlen m - 1)) \<le> real_of_int m" using lo by (simp only: of_int_le_iff)
  then have "(2::real) ^ nat (bitlen m - 1) \<le> real_of_int m" by simp
  with my(1) have yl: "2 ^ nat (bitlen m - 1) < y" by linarith
  have xy: "\<bar>x\<bar> = 1 / y" by (simp add: y_def)
  have "1 / 2 ^ nat (bitlen m) \<le> 1 / y"
    using yu y by (intro divide_left_mono) simp_all
  then have l: "pow2 (- bitlen m) \<le> \<bar>x\<bar>" using b by (simp add: pow2_def xy)
  have "1 / y < 1 / 2 ^ nat (bitlen m - 1)"
    using yl y by (intro divide_strict_left_mono) simp_all
  moreover have "pow2 (- bitlen m + 1) = 1 / 2 ^ nat (bitlen m - 1)"
  proof (cases "bitlen m = 1")
    case True
    then show ?thesis by (simp add: pow2_def)
  next
    case False
    with b have "1 < bitlen m" by simp
    then show ?thesis by (simp add: pow2_def)
  qed
  ultimately have "\<bar>x\<bar> < pow2 (- bitlen m + 1)" by (simp add: xy)
  with l show ?thesis by (simp add: e)
qed

lemma binary_exponent_eq:
  assumes "pow2 e \<le> \<bar>x\<bar>" and "\<bar>x\<bar> < pow2 (e + 1)"
  shows "binary_exponent x = e"
proof -
  have "x \<noteq> 0" using assms(1) pow2_pos [of e] by auto
  from binary_exponent_bounds [OF this]
  have b: "pow2 (binary_exponent x) \<le> \<bar>x\<bar>" "\<bar>x\<bar> < pow2 (binary_exponent x + 1)" by simp_all
  have "binary_exponent x < e + 1"
  proof (rule ccontr)
    assume "\<not> binary_exponent x < e + 1"
    then have "pow2 (e + 1) \<le> pow2 (binary_exponent x)" by (intro pow2_mono) simp
    with b(1) assms(2) show False by simp
  qed
  moreover have "e < binary_exponent x + 1"
  proof (rule ccontr)
    assume "\<not> e < binary_exponent x + 1"
    then have "pow2 (binary_exponent x + 1) \<le> pow2 e" by (intro pow2_mono) simp
    with b(2) assms(1) show False by simp
  qed
  ultimately show ?thesis by simp
qed

lemma round_half_even_near:
  assumes "\<bar>y - real_of_int m\<bar> < 1 / 2"
  shows "round_half_even y = m"
proof -
  have near: "real_of_int m - 1 / 2 < y" "y < real_of_int m + 1 / 2"
    using assms by linarith+
  have "\<lfloor>y\<rfloor> = m \<or> \<lfloor>y\<rfloor> = m - 1"
  proof (cases "real_of_int m \<le> y")
    case True
    with near have "\<lfloor>y\<rfloor> = m" by (intro floor_unique) simp_all
    then show ?thesis ..
  next
    case False
    with near have "\<lfloor>y\<rfloor> = m - 1" by (intro floor_unique) simp_all
    then show ?thesis ..
  qed
  then show ?thesis
  proof
    assume f: "\<lfloor>y\<rfloor> = m"
    then have "y - real_of_int \<lfloor>y\<rfloor> < 1 / 2" using near by simp
    then show ?thesis using f by (simp add: round_half_even_def Let_def)
  next
    assume f: "\<lfloor>y\<rfloor> = m - 1"
    then have "1 / 2 < y - real_of_int \<lfloor>y\<rfloor>" using near by simp
    then show ?thesis using f by (simp add: round_half_even_def Let_def)
  qed
qed

lemma round_half_even_tie:
  assumes "\<bar>y - real_of_int m\<bar> = 1 / 2" and "even m"
  shows "round_half_even y = m"
proof (cases "real_of_int m \<le> y")
  case True
  with assms(1) have y: "y = real_of_int m + 1 / 2" by linarith
  then have "\<lfloor>y\<rfloor> = m" by (intro floor_unique) simp_all
  then show ?thesis using y assms(2) by (simp add: round_half_even_def Let_def)
next
  case False
  with assms(1) have y: "y = real_of_int m - 1 / 2" by linarith
  then have f: "\<lfloor>y\<rfloor> = m - 1" by (intro floor_unique) simp_all
  have "odd (m - 1)" using assms(2) by simp
  then show ?thesis using y f by (simp add: round_half_even_def Let_def)
qed

lemma fl64_nearest:
  assumes "pow2 e \<le> \<bar>x\<bar>" and "\<bar>x\<bar> < pow2 (e + 1)" and "- 1022 \<le> e"
    and "\<bar>x / pow2 (e - 52) - real_of_int m\<bar> < 1 / 2 \<or>
         \<bar>x / pow2 (e - 52) - real_of_int m\<bar> = 1 / 2 \<and> even m"
    and "\<bar>real_of_int m * pow2 (e - 52)\<bar> < 2 ^ 1024"
  shows "fl64 x = Fin (real_of_int m * pow2 (e - 52))"
proof -
  have "x \<noteq> 0" using assms(1) pow2_pos [of e] by auto
  moreover have "max (binary_exponent x) (- 1022) = e"
    using binary_exponent_eq [OF assms(1,2)] assms(3) by simp
  moreover have "round_half_even (x / pow2 (e - 52)) = m"
    using assms(4) round_half_even_near round_half_even_tie by blast
  moreover have "\<not> 2 ^ 1024 \<le> real_of_int m * pow2 (e - 52)"
    and "\<not> real_of_int m * pow2 (e - 52) \<le> - (2 ^ 1024)"
    using assms(5) by (simp_all add: abs_less_iff)
  ultimately show ?thesis by (simp add: fl64_def Let_def)
qed

text \<open>The doubles of the examples, and their products with 10 and 100.\<close>

lemma tenth_nearest: "fl64 (1 / 10) = Fin tenth"
  using fl64_nearest [of "- 4" "1 / 10" 7205759403792794]
  by (simp add: pow2_def tenth_def)

lemma double_8_7_nearest: "fl64 (87 / 10) = Fin double_8_7"
  using fl64_nearest [of 3 "87 / 10" 4897664594765414]
  by (simp add: pow2_def double_8_7_def)

lemma double_0_82_nearest: "fl64 (82 / 100) = Fin double_0_82"
  using fl64_nearest [of "- 1" "82 / 100" 7385903388887613]
  by (simp add: pow2_def double_0_82_def)

lemma double_8_45_nearest: "fl64 (845 / 100) = Fin double_8_45"
  using fl64_nearest [of 3 "845 / 100" 4756927106410086]
  by (simp add: pow2_def double_8_45_def)

lemma double_8_45_exact: "fl64 double_8_45 = Fin double_8_45"
  using fl64_nearest [of 3 double_8_45 4756927106410086]
  by (simp add: pow2_def double_8_45_def)

lemma double_0_145_nearest: "fl64 (145 / 1000) = Fin double_0_145"
  using fl64_nearest [of "- 3" "145 / 1000" 5224175567749775]
  by (simp add: pow2_def double_0_145_def)

lemma product_8_7: "jsmul (Fin double_8_7) (Fin 10) = Fin 87"
  using fl64_nearest [of 6 "double_8_7 * 10" 6122080743456768]
  by (simp add: pow2_def double_8_7_def)

lemma product_0_82: "jsmul (Fin double_0_82) (Fin 100) = Fin 82"
  using fl64_nearest [of 6 "double_0_82 * 100" 5770237022568448]
  by (simp add: pow2_def double_0_82_def)

lemma product_8_45: "jsmul (Fin double_8_45) (Fin 10) = Fin (169 / 2)"
  using fl64_nearest [of 6 "double_8_45 * 10" 5946158883012608]
  by (simp add: pow2_def double_8_45_def)

lemma product_0_145:
  "jsmul (Fin double_0_145) (Fin 100) = Fin (8162774324609023 / 562949953421312)"
  using fl64_nearest [of 3 "double_0_145 * 100" 8162774324609023]
  by (simp add: pow2_def double_0_145_def)


section \<open>Properties of the evaluation normalizer\<close>

lemma round_half_up_of_int: "round_half_up (of_int k) = k"
  unfolding round_half_up_def by linarith

lemma round_half_up_round: "round_half_up x = round x"
  by (simp add: round_half_up_def round_def)

lemma clamp_int:
  "lo \<le> hi \<Longrightarrow> clamp (Fin (of_int i)) (Fin (of_int lo)) (Fin (of_int hi)) = Fin (of_int (spec_clamp lo hi i))"
  by (simp add: clamp_def Math_min_def Math_max_def spec_clamp_def)

lemma clamp_round:
  "lo \<le> hi \<Longrightarrow> clamp (Math_round (Fin x)) (Fin (of_int lo)) (Fin (of_int hi)) = Fin (of_int (spec_clamp lo hi (round x)))"
  using clamp_int [of lo hi "round x"] by (simp add: round_half_up_round)

lemma clamp_round_product:
  assumes "lo \<le> hi" and "v \<noteq> NaN"
  shows "clamp (Math_round v) (Fin (of_int lo)) (Fin (of_int hi)) = Fin (of_int (spec_round_clamp lo hi v))"
proof (cases v)
  case (Fin x)
  then show ?thesis using clamp_round [OF assms(1), of x] by (simp add: spec_round_clamp_def)
qed (use assms in \<open>simp_all add: clamp_def Math_min_def Math_max_def spec_round_clamp_def\<close>)

lemma clamp_NaN: "clamp NaN lo hi = NaN"
  by (simp add: clamp_def Math_min_def Math_max_def)

lemma spec_clamp_range: "lo \<le> hi \<Longrightarrow> lo \<le> spec_clamp lo hi x \<and> spec_clamp lo hi x \<le> hi"
  by (simp add: spec_clamp_def)

lemma spec_round_clamp_range:
  "lo \<le> hi \<Longrightarrow> lo \<le> spec_round_clamp lo hi v \<and> spec_round_clamp lo hi v \<le> hi"
  using spec_clamp_range [of lo hi] by (cases v) (simp_all add: spec_round_clamp_def)

lemma product_not_NaN: "0 < k \<Longrightarrow> jsmul (fl64 x) (Fin k) \<noteq> NaN"
  by (cases "fl64 x") (simp_all add: fl64_not_NaN)

lemma toGrade_Fin:
  "toGrade (Fin x) = (if 93 \<le> x then ''A'' else if 85 \<le> x then ''A-'' else if 78 \<le> x then ''B+''
     else if 70 \<le> x then ''B'' else if 62 \<le> x then ''C'' else ''D'')"
  by (simp add: toGrade_def jsge_def)

lemma toGrade_NaN: "toGrade NaN = ''D''"
  by (simp add: toGrade_def jsge_def)

lemma category_score:
  assumes "lo \<le> hi" and "0 \<le> ov" "ov \<le> 100" and "1 \<le> p" "p \<le> 5" and "0 \<le> d" "d \<le> 8"
  shows "clamp (Math_round (jsadd (jssub (Fin (of_int ov)) (Fin (of_int d)))
                                  (jsmul (jssub (Fin (of_int p)) (Fin 3)) (Fin 6))))
           (Fin (of_int lo)) (Fin (of_int hi))
         = Fin (of_int (spec_category (- d) lo hi ov p))"
proof -
  have a: "jssub (Fin (of_int ov)) (Fin (of_int d)) = Fin (of_int (ov - d))"
    using assms by (intro jssub_int) simp
  have b: "jssub (Fin (of_int p)) (Fin 3) = Fin (of_int (p - 3))"
    using jssub_int [of p 3] assms by simp
  have c: "jsmul (Fin (of_int (p - 3))) (Fin 6) = Fin (of_int ((p - 3) * 6))"
    using jsmul_int [of "p - 3" 6] assms by simp
  have d: "jsadd (Fin (of_int (ov - d))) (Fin (of_int ((p - 3) * 6)))
           = Fin (of_int (ov + - d + (p - 3) * 6))"
    using jsadd_int [of "ov - d" "(p - 3) * 6"] assms by simp
  show ?thesis
    unfolding a b c d Math_round.simps round_half_up_of_int spec_category_def
    by (rule clamp_int [OF assms(1)])
qed

lemma financial_score:
  assumes "0 \<le> ov" "ov \<le> 100" and "1 \<le> p" "p \<le> 5"
  shows "clamp (Math_round (jsadd (Fin (of_int ov))
                                  (jsmul (jssub (Fin (of_int p)) (Fin 3)) (Fin 6))))
           (Fin 8) (Fin 98)
         = Fin (of_int (spec_category 0 8 98 ov p))"
proof -
  have b: "jssub (Fin (of_int p)) (Fin 3) = Fin (of_int (p - 3))"
    using jssub_int [of p 3] assms by simp
  have c: "jsmul (Fin (of_int (p - 3))) (Fin 6) = Fin (of_int ((p - 3) * 6))"
    using jsmul_int [of "p - 3" 6] assms by simp
  have d: "jsadd (Fin (of_int ov)) (Fin (of_int ((p - 3) * 6)))
           = Fin (of_int (ov + 0 + (p - 3) * 6))"
    using jsadd_int [of ov "(p - 3) * 6"] assms by simp
  show ?thesis
    unfolding b c d Math_round.simps round_half_up_of_int spec_category_def
    using clamp_int [of 8 98 "ov + 0 + (p - 3) * 6"] by simp
qed

lemma category_score_NaN:
  "clamp (Math_round (jsadd (jssub NaN x) y)) lo hi = NaN"
  "clamp (Math_round (jsadd NaN y)) lo hi = NaN"
  by (simp_all add: jssub_def clamp_NaN)

lemma risk_score:
  assumes n: "n < 2 ^ 32" and p: "0 \<le> penalty" "penalty \<le> 18" and c: "0 \<le> conf" "conf \<le> 100"
  shows "clamp (Math_round (jsadd (jssub (jssub (Fin 76) (jsmul (Fin (real n)) (Fin 7)))
                                         (Fin (of_int penalty)))
                                  (jsmul (Fin (of_int conf)) (Fin tenth))))
           (Fin 12) (Fin 95)
         = Fin (of_int (spec_risk n penalty conf))"
proof -
  from n have "int n < int (2 ^ 32)" by (simp only: of_nat_less_iff)
  then have n': "int n < 2 ^ 32" by simp
  have a: "jsmul (Fin (real n)) (Fin 7) = Fin (of_int (int n * 7))"
    using jsmul_int [of "int n" 7] n' by simp
  have b: "jssub (Fin 76) (Fin (of_int (int n * 7))) = Fin (of_int (76 - int n * 7))"
    using jssub_int [of 76 "int n * 7"] n' by simp
  have d: "jssub (Fin (of_int (76 - int n * 7))) (Fin (of_int penalty))
           = Fin (of_int (76 - int n * 7 - penalty))"
    using n' p by (intro jssub_int) simp
  have K: "\<bar>76 - int n * 7 - penalty\<bar> \<le> 2 ^ 36" using n' p by simp
  from risk_sum [OF c K] obtain v
    where v: "jsadd (Fin (of_int (76 - int n * 7 - penalty))) (jsmul (Fin (of_int conf)) (Fin tenth)) = Fin v"
      and r: "round_half_up v = round (real_of_int (76 - int n * 7 - penalty) + real_of_int conf / 10)"
    by blast
  have e: "real_of_int (76 - int n * 7 - penalty) + real_of_int conf / 10
           = 76 - 7 * real n - real_of_int penalty + 0.1 * real_of_int conf"
    by simp
  show ?thesis
    unfolding a b d v Math_round.simps r e spec_risk_def
    using clamp_int [of 12 95 "round (76 - 7 * real n - real_of_int penalty + 0.1 * real_of_int conf)"]
    by simp
qed

text \<open>
  The confidence and the risk score of an evaluation whose confidence, recommendation
  and risks are present, whatever its score is.
\<close>

lemma confidence_and_risk:
  assumes "WorkflowEvaluation.confidence ev = Some c"
    and "WorkflowEvaluation.recommendation ev = Some r"
    and "spec_penalty r = Some penalty"
    and "length rs < 2 ^ 32"
  shows "clamp (Math_round (jsmul (jsonNumber (WorkflowEvaluation.confidence ev)) (Fin 100)))
           (Fin 0) (Fin 100) = Fin (of_int (double_confidence c))"
    and "clamp (Math_round
           (jsadd (jssub (jssub (Fin 76) (jsmul (Fin (real (length rs))) (Fin 7)))
                         (Fin (if WorkflowEvaluation.recommendation ev = Some ''needs_more_info'' then 18
                               else if WorkflowEvaluation.recommendation ev = Some ''renegotiate'' then 8
                               else 0)))
                  (jsmul (Fin (of_int (double_confidence c))) (fl64 (1 / 10)))))
           (Fin 12) (Fin 95)
         = Fin (of_int (spec_risk (length rs) penalty (double_confidence c)))"
proof -
  have pen: "(if WorkflowEvaluation.recommendation ev = Some ''needs_more_info'' then 18
              else if WorkflowEvaluation.recommendation ev = Some ''renegotiate'' then 8 else 0)
             = real_of_int penalty"
    and pr: "0 \<le> penalty" "penalty \<le> 18"
    using assms(2,3) by (auto simp: spec_penalty_def split: if_splits)
  show "clamp (Math_round (jsmul (jsonNumber (WorkflowEvaluation.confidence ev)) (Fin 100)))
           (Fin 0) (Fin 100) = Fin (of_int (double_confidence c))"
    using clamp_round_product [of 0 100 "jsmul (fl64 c) (Fin 100)"]
    by (simp add: assms(1) double_confidence_def product_not_NaN)
  have cr: "0 \<le> double_confidence c" "double_confidence c \<le> 100"
    using spec_round_clamp_range [of 0 100] by (simp_all add: double_confidence_def)
  show "clamp (Math_round
           (jsadd (jssub (jssub (Fin 76) (jsmul (Fin (real (length rs))) (Fin 7)))
                         (Fin (if WorkflowEvaluation.recommendation ev = Some ''needs_more_info'' then 18
                               else if WorkflowEvaluation.recommendation ev = Some ''renegotiate'' then 8
                               else 0)))
                  (jsmul (Fin (of_int (double_confidence c))) (fl64 (1 / 10)))))
           (Fin 12) (Fin 95)
         = Fin (of_int (spec_risk (length rs) penalty (double_confidence c)))"
    unfolding pen tenth_nearest by (rule risk_score [OF assms(4) pr cr])
qed

text \<open>The whole result for a well-formed evaluation, and for one without a score.\<close>

lemma mapEvalToAnalysis_wellformed:
  assumes "score ev = Some s"
    and "WorkflowEvaluation.confidence ev = Some c"
    and "WorkflowEvaluation.recommendation ev = Some r"
    and "spec_penalty r = Some penalty"
    and "WorkflowEvaluation.risks ev = Some rs"
    and "length rs < 2 ^ 32"
    and "key_drivers ev = Some ds"
    and "negotiation_targets ev = Some ts"
    and "ratingsInRange pr"
  shows "mapEvalToAnalysis pr ev fname = Inr \<lparr>
     overallScore = Fin (of_int (double_overall s)),
     categoryScores = \<lparr>
       CategoryScores.financial =
         Fin (of_int (spec_category 0 8 98 (double_overall s) (Priorities.financial pr))),
       CategoryScores.career =
         Fin (of_int (spec_category (- 4) 8 98 (double_overall s) (Priorities.career pr))),
       CategoryScores.lifestyle =
         Fin (of_int (spec_category (- 8) 8 95 (double_overall s) (Priorities.lifestyle pr))),
       CategoryScores.alignment =
         Fin (of_int (spec_category (- 6) 8 96 (double_overall s) (Priorities.alignment pr))),
       CategoryScores.risk =
         Fin (of_int (spec_risk (length rs) penalty (double_confidence c)))\<rparr>,
     grade = toGrade (Fin (of_int (double_overall s))),
     strengths =
       (if take 6 (map label (filter (\<lambda>d. impact d = ''positive'' \<or> impact d = ''neutral'') ds)) \<noteq> []
        then take 6 (map label (filter (\<lambda>d. impact d = ''positive'' \<or> impact d = ''neutral'') ds))
        else [''Model did not return positive key drivers.'']),
     risks = rs,
     financialProjection = one_paragraph_summary ev,
     negotiationInsights =
       (if length ts > 0 then join '' '' (map negotiationLine ts)
        else ''No negotiation targets were returned by the model.''),
     comparisonData = [\<lparr>
       OfferComparison.name = stripOfferExt fname,
       overall = Fin (of_int (double_overall s)),
       OfferComparison.financial =
         Fin (of_int (spec_category 0 8 98 (double_overall s) (Priorities.financial pr))),
       OfferComparison.career =
         Fin (of_int (spec_category (- 4) 8 98 (double_overall s) (Priorities.career pr))),
       OfferComparison.risk =
         Fin (of_int (spec_risk (length rs) penalty (double_confidence c)))\<rparr>],
     confidence = Fin (of_int (double_confidence c)),
     recommendation = WorkflowEvaluation.recommendation ev\<rparr>"
proof -
  let ?ov = "clamp (Math_round (jsmul (jsonNumber (score ev)) (Fin 10))) (Fin 0) (Fin 100)"
  have ov: "?ov = Fin (of_int (double_overall s))"
    using clamp_round_product [of 0 100 "jsmul (fl64 s) (Fin 10)"]
    by (simp add: assms(1) double_overall_def product_not_NaN)
  have o: "0 \<le> double_overall s" "double_overall s \<le> 100"
    using spec_round_clamp_range [of 0 100] by (simp_all add: double_overall_def)
  from assms(9) have rt:
    "1 \<le> Priorities.financial pr" "Priorities.financial pr \<le> 5"
    "1 \<le> Priorities.career pr" "Priorities.career pr \<le> 5"
    "1 \<le> Priorities.lifestyle pr" "Priorities.lifestyle pr \<le> 5"
    "1 \<le> Priorities.alignment pr" "Priorities.alignment pr \<le> 5"
    by (simp_all add: ratingsInRange_def)
  let ?o = "Fin (real_of_int (double_overall s))"
  have fin: "clamp (Math_round (jsadd ?o
                 (jsmul (jssub (Fin (of_int (Priorities.financial pr))) (Fin 3)) (Fin 6))))
               (Fin 8) (Fin 98)
             = Fin (of_int (spec_category 0 8 98 (double_overall s) (Priorities.financial pr)))"
    by (rule financial_score [OF o rt(1,2)])
  have car: "clamp (Math_round (jsadd (jssub ?o (Fin 4))
                 (jsmul (jssub (Fin (of_int (Priorities.career pr))) (Fin 3)) (Fin 6))))
               (Fin 8) (Fin 98)
             = Fin (of_int (spec_category (- 4) 8 98 (double_overall s) (Priorities.career pr)))"
    using category_score [of 8 98 "double_overall s" "Priorities.career pr" 4] o rt by simp
  have lif: "clamp (Math_round (jsadd (jssub ?o (Fin 8))
                 (jsmul (jssub (Fin (of_int (Priorities.lifestyle pr))) (Fin 3)) (Fin 6))))
               (Fin 8) (Fin 95)
             = Fin (of_int (spec_category (- 8) 8 95 (double_overall s) (Priorities.lifestyle pr)))"
    using category_score [of 8 95 "double_overall s" "Priorities.lifestyle pr" 8] o rt by simp
  have ali: "clamp (Math_round (jsadd (jssub ?o (Fin 6))
                 (jsmul (jssub (Fin (of_int (Priorities.alignment pr))) (Fin 3)) (Fin 6))))
               (Fin 8) (Fin 96)
             = Fin (of_int (spec_category (- 6) 8 96 (double_overall s) (Priorities.alignment pr)))"
    using category_score [of 8 96 "double_overall s" "Priorities.alignment pr" 6] o rt by simp
  note cr = confidence_and_risk [OF assms(2,3,4,6)]
  show ?thesis
    unfolding mapEvalToAnalysis_def Let_def assms(5,7,8) option.case ov cr fin car lif ali
    by (simp only: CategoryScores.select_convs)
qed

lemma mapEvalToAnalysis_without_score:
  assumes "score ev = None"
    and "WorkflowEvaluation.confidence ev = Some c"
    and "WorkflowEvaluation.recommendation ev = Some r"
    and "spec_penalty r = Some penalty"
    and "WorkflowEvaluation.risks ev = Some rs"
    and "length rs < 2 ^ 32"
    and "key_drivers ev = Some ds"
    and "negotiation_targets ev = Some ts"
  shows "mapEvalToAnalysis pr ev fname = Inr \<lparr>
     overallScore = NaN,
     categoryScores = \<lparr>
       CategoryScores.financial = NaN, CategoryScores.career = NaN,
       CategoryScores.lifestyle = NaN, CategoryScores.alignment = NaN,
       CategoryScores.risk =
         Fin (of_int (spec_risk (length rs) penalty (double_confidence c)))\<rparr>,
     grade = ''D'',
     strengths =
       (if take 6 (map label (filter (\<lambda>d. impact d = ''positive'' \<or> impact d = ''neutral'') ds)) \<noteq> []
        then take 6 (map label (filter (\<lambda>d. impact d = ''positive'' \<or> impact d = ''neutral'') ds))
        else [''Model did not return positive key drivers.'']),
     risks = rs,
     financialProjection = one_paragraph_summary ev,
     negotiationInsights =
       (if length ts > 0 then join '' '' (map negotiationLine ts)
        else ''No negotiation targets were returned by the model.''),
     comparisonData = [\<lparr>
       OfferComparison.name = stripOfferExt fname,
       overall = NaN,
       OfferComparison.financial = NaN,
       OfferComparison.career = NaN,
       OfferComparison.risk =
         Fin (of_int (spec_risk (length rs) penalty (double_confidence c)))\<rparr>],
     confidence = Fin (of_int (double_confidence c)),
     recommendation = WorkflowEvaluation.recommendation ev\<rparr>"
proof -
  have ov: "clamp (Math_round (jsmul (jsonNumber (score ev)) (Fin 10))) (Fin 0) (Fin 100) = NaN"
    by (simp add: assms(1) clamp_NaN)
  note cr = confidence_and_risk [OF assms(2,3,4,6)]
  show ?thesis
    unfolding mapEvalToAnalysis_def Let_def assms(5,7,8) option.case ov cr category_score_NaN
      toGrade_NaN
    by (simp only: CategoryScores.select_convs)
qed

text \<open>The two products of the example evaluation, and of the evaluation on the tie.\<close>

lemma example_overall: "double_overall (87 / 10) = 87"
  unfolding double_overall_def double_8_7_nearest product_8_7
  by (simp add: spec_round_clamp_def spec_clamp_def round_def)

lemma example_confidence: "double_confidence (82 / 100) = 82"
  unfolding double_confidence_def double_0_82_nearest product_0_82
  by (simp add: spec_round_clamp_def spec_clamp_def round_def)

lemma tie_overall: "double_overall double_8_45 = 85"
  unfolding double_overall_def double_8_45_exact product_8_45
  by (simp add: spec_round_clamp_def spec_clamp_def round_def)

lemma tie_confidence: "double_confidence (145 / 1000) = 14"
  unfolding double_confidence_def double_0_145_nearest product_0_145
  by (simp add: spec_round_clamp_def spec_clamp_def round_def)

lemma example_fields:
  "score example_eval = Some (87 / 10)"
  "WorkflowEvaluation.confidence example_eval = Some (82 / 100)"
  "WorkflowEvaluation.recommendation example_eval = Some ''accept''"
  "WorkflowEvaluation.risks example_eval = Some []"
  "key_drivers example_eval = Some [\<lparr>label = ''Strong base'', impact = ''positive''\<rparr>]"
  "negotiation_targets example_eval = Some []"
  "one_paragraph_summary example_eval = Some ''Solid offer.''"
  by (simp_all add: example_eval_def)

lemma accept_penalty: "spec_penalty ''accept'' = Some 0"
  by (simp add: spec_penalty_def)

lemma no_risks: "length ([] :: string list) < 2 ^ 32"
  by simp

lemma example_ratings: "ratingsInRange example_priorities"
  by (simp add: ratingsInRange_def example_priorities_def)

lemma example_scores:
  "spec_risk (length ([] :: string list)) 0 82 = 84"
  "spec_category 0 8 98 87 (Priorities.financial example_priorities) = 98"
  "spec_category (- 4) 8 98 87 (Priorities.career example_priorities) = 83"
  "spec_category (- 8) 8 95 87 (Priorities.lifestyle example_priorities) = 79"
  "spec_category (- 6) 8 96 87 (Priorities.alignment example_priorities) = 81"
  by (simp_all add: spec_risk_def spec_category_def spec_clamp_def round_def
      example_priorities_def)

lemma example_texts:
  "stripOfferExt ''offer.pdf'' = ''offer''"
  "take 6 (map label (filter (\<lambda>d. impact d = ''positive'' \<or> impact d = ''neutral'')
     [\<lparr>label = ''Strong base'', impact = ''positive''\<rparr>])) = [''Strong base'']"
  by (simp_all add: stripOfferExt_def endsWith_def lower_ascii_def)

lemma example_analysis:
  "mapEvalToAnalysis example_priorities example_eval ''offer.pdf'' = Inr \<lparr>
     overallScore = Fin 87,
     categoryScores = \<lparr>CategoryScores.financial = Fin 98, CategoryScores.career = Fin 83,
       CategoryScores.lifestyle = Fin 79, CategoryScores.alignment = Fin 81,
       CategoryScores.risk = Fin 84\<rparr>,
     grade = ''A-'',
     strengths = [''Strong base''],
     risks = [],
     financialProjection = Some ''Solid offer.'',
     negotiationInsights = ''No negotiation targets were returned by the model.'',
     comparisonData = [\<lparr>OfferComparison.name = ''offer'', overall = Fin 87,
       OfferComparison.financial = Fin 98, OfferComparison.career = Fin 83,
       OfferComparison.risk = Fin 84\<rparr>],
     confidence = Fin 82,
     recommendation = Some ''accept''\<rparr>"
  unfolding mapEvalToAnalysis_wellformed [OF example_fields(1,2,3) accept_penalty
      example_fields(4) no_risks example_fields(5,6) example_ratings]
    example_overall example_confidence example_scores example_texts example_fields
  by (simp add: toGrade_Fin)

lemma example_analysis_without_score:
  "mapEvalToAnalysis example_priorities (example_eval\<lparr>score := None\<rparr>) ''offer.pdf'' = Inr \<lparr>
     overallScore = NaN,
     categoryScores = \<lparr>CategoryScores.financial = NaN, CategoryScores.career = NaN,
       CategoryScores.lifestyle = NaN, CategoryScores.alignment = NaN,
       CategoryScores.risk = Fin 84\<rparr>,
     grade = ''D'',
     strengths = [''Strong base''],
     risks = [],
     financialProjection = Some ''Solid offer.'',
     negotiationInsights = ''No negotiation targets were returned by the model.'',
     comparisonData = [\<lparr>OfferComparison.name = ''offer'', overall = NaN,
       OfferComparison.financial = NaN, OfferComparison.career = NaN,
       OfferComparison.risk = Fin 84\<rparr>],
     confidence = Fin 82,
     recommendation = Some ''accept''\<rparr>"
proof -
  let ?ev = "example_eval\<lparr>score := None\<rparr>"
  have f: "score ?ev = None"
    "WorkflowEvaluation.confidence ?ev = Some (82 / 100)"
    "WorkflowEvaluation.recommendation ?ev = Some ''accept''"
    "WorkflowEvaluation.risks ?ev = Some []"
    "key_drivers ?ev = Some [\<lparr>label = ''Strong base'', impact = ''positive''\<rparr>]"
    "negotiation_targets ?ev = Some []"
    "one_paragraph_summary ?ev = Some ''Solid offer.''"
    by (simp_all add: example_eval_def)
  show ?thesis
    unfolding mapEvalToAnalysis_without_score [OF f(1,2,3) accept_penalty f(4) no_risks f(5,6)]
      example_confidence example_scores example_texts f
    by simp
qed


text \<open>
  C1. For a well-formed evaluation (every field the normalizer reads is present, the
  recommendation is one of the three of the penalty table, the list of risks has an
  array's length) and ratings from 1 to 5, \<open>mapEvalToAnalysis\<close> returns an analysis
  whose overall score is round(score * 10) clamped to [0,100] and whose confidence is
  round(raw confidence * 100) clamped to [0,100], both products being products of
  doubles; whose risk score is round(76 - 7 * (number of risks) - penalty + 0.1 *
  confidence) clamped to [12,95]; and whose financial, career, lifestyle and alignment
  scores are the overall score plus the offsets 0, -4, -8, -6 plus (rating - 3) * 6,
  clamped to [8,98], [8,98], [8,95] and [8,96]. The last five formulas hold as the
  specification writes them, on integers: the rounding of the doubles does not show.
\<close>

theorem mapEvalToAnalysis_scores:
  assumes "score ev = Some s"
    and "WorkflowEvaluation.confidence ev = Some c"
    and "WorkflowEvaluation.recommendation ev = Some r"
    and "spec_penalty r = Some penalty"
    and "WorkflowEvaluation.risks ev = Some rs"
    and "length rs < 2 ^ 32"
    and "key_drivers ev = Some ds"
    and "negotiation_targets ev = Some ts"
    and "ratingsInRange pr"
  shows "\<exists>a. mapEvalToAnalysis pr ev fname = Inr a \<and>
     overallScore a = Fin (of_int (double_overall s)) \<and>
     ResultsAnalysisData.confidence a = Fin (of_int (double_confidence c)) \<and>
     CategoryScores.risk (categoryScores a) =
       Fin (of_int (spec_risk (length rs) penalty (double_confidence c))) \<and>
     CategoryScores.financial (categoryScores a) =
       Fin (of_int (spec_category 0 8 98 (double_overall s) (Priorities.financial pr))) \<and>
     CategoryScores.career (categoryScores a) =
       Fin (of_int (spec_category (- 4) 8 98 (double_overall s) (Priorities.career pr))) \<and>
     CategoryScores.lifestyle (categoryScores a) =
       Fin (of_int (spec_category (- 8) 8 95 (double_overall s) (Priorities.lifestyle pr))) \<and>
     CategoryScores.alignment (categoryScores a) =
       Fin (of_int (spec_category (- 6) 8 96 (double_overall s) (Priorities.alignment pr)))"
  unfolding mapEvalToAnalysis_wellformed [OF assms]
  by (rule exI, rule conjI, rule refl)
    (simp only: ResultsAnalysisData.select_convs CategoryScores.select_convs simp_thms)

theorem mapEvalToAnalysis_scores_witness:
  "\<exists>a. mapEvalToAnalysis example_priorities example_eval ''offer.pdf'' = Inr a \<and>
     overallScore a = Fin 87 \<and>
     ResultsAnalysisData.confidence a = Fin 82 \<and>
     CategoryScores.risk (categoryScores a) = Fin 84 \<and>
     CategoryScores.financial (categoryScores a) = Fin 98 \<and>
     CategoryScores.career (categoryScores a) = Fin 83 \<and>
     CategoryScores.lifestyle (categoryScores a) = Fin 79 \<and>
     CategoryScores.alignment (categoryScores a) = Fin 81"
  using mapEvalToAnalysis_scores [OF example_fields(1,2,3) accept_penalty example_fields(4)
      no_risks example_fields(5,6) example_ratings, of "''offer.pdf''"]
  unfolding example_overall example_confidence example_scores
  by simp

text \<open>
  The formulas of C1 with the product of real numbers do not hold on a rounding tie.
  For the score that the text \<open>8.45\<close> denotes as a double, a little below 8.45, the code
  gives the overall score 85 where round(score * 10) is 84; for the confidence \<open>0.145\<close>
  it gives the confidence 14 and the risk score 77 where the formulas give 15 and 78.
\<close>

theorem tie_follows_the_double_product:
  "mapEvalToAnalysis example_priorities tie_eval ''offer.pdf'' = Inr \<lparr>
     overallScore = Fin 85,
     categoryScores = \<lparr>CategoryScores.financial = Fin 97, CategoryScores.career = Fin 81,
       CategoryScores.lifestyle = Fin 77, CategoryScores.alignment = Fin 79,
       CategoryScores.risk = Fin 77\<rparr>,
     grade = ''A-'',
     strengths = [''Strong base''],
     risks = [],
     financialProjection = Some ''Solid offer.'',
     negotiationInsights = ''No negotiation targets were returned by the model.'',
     comparisonData = [\<lparr>OfferComparison.name = ''offer'', overall = Fin 85,
       OfferComparison.financial = Fin 97, OfferComparison.career = Fin 81,
       OfferComparison.risk = Fin 77\<rparr>],
     confidence = Fin 14,
     recommendation = Some ''accept''\<rparr> \<and>
   fl64 (845 / 100) = Fin double_8_45 \<and>
   double_8_45 < 845 / 100 \<and>
   spec_overall double_8_45 = 84 \<and>
   spec_confidence (145 / 1000) = 15 \<and>
   spec_risk 0 0 (spec_confidence (145 / 1000)) = 78"
proof -
  have f: "score tie_eval = Some double_8_45"
    "WorkflowEvaluation.confidence tie_eval = Some (145 / 1000)"
    "WorkflowEvaluation.recommendation tie_eval = Some ''accept''"
    "WorkflowEvaluation.risks tie_eval = Some []"
    "key_drivers tie_eval = Some [\<lparr>label = ''Strong base'', impact = ''positive''\<rparr>]"
    "negotiation_targets tie_eval = Some []"
    "one_paragraph_summary tie_eval = Some ''Solid offer.''"
    by (simp_all add: tie_eval_def example_eval_def)
  have v: "spec_risk (length ([] :: string list)) 0 14 = 77"
    "spec_category 0 8 98 85 (Priorities.financial example_priorities) = 97"
    "spec_category (- 4) 8 98 85 (Priorities.career example_priorities) = 81"
    "spec_category (- 8) 8 95 85 (Priorities.lifestyle example_priorities) = 77"
    "spec_category (- 6) 8 96 85 (Priorities.alignment example_priorities) = 79"
    by (simp_all add: spec_risk_def spec_category_def spec_clamp_def round_def
        example_priorities_def)
  have code: "mapEvalToAnalysis example_priorities tie_eval ''offer.pdf'' = Inr \<lparr>
     overallScore = Fin 85,
     categoryScores = \<lparr>CategoryScores.financial = Fin 97, CategoryScores.career = Fin 81,
       CategoryScores.lifestyle = Fin 77, CategoryScores.alignment = Fin 79,
       CategoryScores.risk = Fin 77\<rparr>,
     grade = ''A-'',
     strengths = [''Strong base''],
     risks = [],
     financialProjection = Some ''Solid offer.'',
     negotiationInsights = ''No negotiation targets were returned by the model.'',
     comparisonData = [\<lparr>OfferComparison.name = ''offer'', overall = Fin 85,
       OfferComparison.financial = Fin 97, OfferComparison.career = Fin 81,
       OfferComparison.risk = Fin 77\<rparr>],
     confidence = Fin 14,
     recommendation = Some ''accept''\<rparr>"
    unfolding mapEvalToAnalysis_wellformed [OF f(1,2,3) accept_penalty f(4) no_risks f(5,6)
        example_ratings]
      tie_overall tie_confidence v example_texts f
    by (simp add: toGrade_Fin)
  have below: "double_8_45 < 845 / 100"
    by (simp add: double_8_45_def)
  have formula: "spec_overall double_8_45 = 84" "spec_confidence (145 / 1000) = 15"
    "spec_risk 0 0 (spec_confidence (145 / 1000)) = 78"
    by (simp_all add: spec_overall_def spec_confidence_def spec_risk_def spec_clamp_def
        round_def double_8_45_def)
  show ?thesis
    using code double_8_45_nearest below formula by (simp only: simp_thms)
qed


text \<open>
  C2. \<open>toGrade\<close> follows the threshold table (A from 93, A- from 85, B+ from 78, B from
  70, C from 62, D below), is monotonic in the score, and gives A at 93, A- at 92, B at
  70 and D at 61.
\<close>

theorem toGrade_table_monotone:
  "(93 \<le> x \<longrightarrow> toGrade (Fin x) = ''A'') \<and>
   (85 \<le> x \<and> x < 93 \<longrightarrow> toGrade (Fin x) = ''A-'') \<and>
   (78 \<le> x \<and> x < 85 \<longrightarrow> toGrade (Fin x) = ''B+'') \<and>
   (70 \<le> x \<and> x < 78 \<longrightarrow> toGrade (Fin x) = ''B'') \<and>
   (62 \<le> x \<and> x < 70 \<longrightarrow> toGrade (Fin x) = ''C'') \<and>
   (x < 62 \<longrightarrow> toGrade (Fin x) = ''D'') \<and>
   (x \<le> y \<longrightarrow> grade_rank (toGrade (Fin x)) \<le> grade_rank (toGrade (Fin y))) \<and>
   toGrade (Fin 93) = ''A'' \<and> toGrade (Fin 92) = ''A-'' \<and>
   toGrade (Fin 70) = ''B'' \<and> toGrade (Fin 61) = ''D''"
  by (simp add: toGrade_Fin grade_rank_def)

theorem toGrade_table_monotone_witness:
  "toGrade (Fin 95) = ''A'' \<and> toGrade (Fin 90) = ''A-'' \<and> toGrade (Fin 80) = ''B+'' \<and>
   toGrade (Fin 75) = ''B'' \<and> toGrade (Fin 65) = ''C'' \<and> toGrade (Fin 10) = ''D'' \<and>
   (65::real) \<le> 90 \<and> grade_rank (toGrade (Fin 65)) \<le> grade_rank (toGrade (Fin 90))"
  using toGrade_table_monotone [of 95 95] toGrade_table_monotone [of 90 90]
    toGrade_table_monotone [of 80 80] toGrade_table_monotone [of 75 75]
    toGrade_table_monotone [of 65 90] toGrade_table_monotone [of 10 10]
  by auto


section \<open>The offer list keeps one current offer\<close>

lemma filter_current_select:
  "distinct (map UploadedOffer.id xs) \<Longrightarrow> i \<in> UploadedOffer.id ` set xs \<Longrightarrow>
   length (filter UploadedOffer.isCurrent (selectCurrent i xs)) = 1"
proof (induction xs)
  case Nil
  then show ?case by simp
next
  case (Cons x xs)
  show ?case
  proof (cases "UploadedOffer.id x = i")
    case True
    from Cons.prems(1) have "UploadedOffer.id x \<notin> UploadedOffer.id ` set xs" by simp
    with True have "\<forall>y \<in> set xs. UploadedOffer.id y \<noteq> i" by (auto simp: image_iff)
    then have "filter UploadedOffer.isCurrent (selectCurrent i xs) = []"
      by (induction xs) (auto simp: selectCurrent_def)
    with True show ?thesis by (simp add: selectCurrent_def)
  next
    case False
    with Cons.prems have "i \<in> UploadedOffer.id ` set xs" "distinct (map UploadedOffer.id xs)" by auto
    with Cons.IH False show ?thesis by (simp add: selectCurrent_def)
  qed
qed

lemma ids_select: "map UploadedOffer.id (selectCurrent i xs) = map UploadedOffer.id xs"
  by (simp add: selectCurrent_def)

lemma length_filter_filter_le:
  "length (filter P (filter Q xs)) \<le> length (filter P xs)"
  by (induction xs) auto

lemma ids_remove:
  "map UploadedOffer.id (removeOffer i xs) = map UploadedOffer.id (filter (\<lambda>x. UploadedOffer.id x \<noteq> i) xs)"
  by (cases "filter (\<lambda>x. UploadedOffer.id x \<noteq> i) xs") (auto simp: removeOffer_def Let_def)

lemma remove_nonempty:
  "removeOffer i xs \<noteq> [] \<longleftrightarrow> filter (\<lambda>x. UploadedOffer.id x \<noteq> i) xs \<noteq> []"
  by (cases "filter (\<lambda>x. UploadedOffer.id x \<noteq> i) xs") (auto simp: removeOffer_def Let_def)

lemma no_current_filter: "\<not> list_ex P ys \<Longrightarrow> filter P ys = []"
  by (induction ys) auto

lemma some_current_filter: "list_ex P ys \<Longrightarrow> 1 \<le> length (filter P ys)"
  by (induction ys) auto

lemma remove_one_current:
  assumes "length (filter UploadedOffer.isCurrent xs) = 1" and "removeOffer i xs \<noteq> []"
  shows "length (filter UploadedOffer.isCurrent (removeOffer i xs)) = 1"
proof -
  let ?f = "filter (\<lambda>x. UploadedOffer.id x \<noteq> i) xs"
  from assms(2) obtain y ys where f: "?f = y # ys"
    by (cases ?f) (auto simp: removeOffer_def Let_def)
  show ?thesis
  proof (cases "list_ex UploadedOffer.isCurrent ?f")
    case True
    then have "1 \<le> length (filter UploadedOffer.isCurrent ?f)" by (rule some_current_filter)
    moreover have "length (filter UploadedOffer.isCurrent ?f) \<le> 1"
      using length_filter_filter_le [of UploadedOffer.isCurrent _ xs] assms(1) by simp
    ultimately show ?thesis using True by (simp add: removeOffer_def Let_def)
  next
    case False
    then have "filter UploadedOffer.isCurrent (y # ys) = []"
      using f no_current_filter by metis
    then have "\<not> UploadedOffer.isCurrent y" "filter UploadedOffer.isCurrent ys = []"
      by (auto split: if_splits)
    with False f show ?thesis by (simp add: removeOffer_def Let_def)
  qed
qed

lemma upload_invariant:
  assumes "listInvariant xs" and "uuid \<notin> UploadedOffer.id ` set xs"
  shows "listInvariant (handleFileUpload uuid chosen xs)"
proof (cases chosen)
  case None
  with assms(1) show ?thesis by (simp add: handleFileUpload_def)
next
  case (Some f)
  with assms show ?thesis
    by (cases "xs = []") (auto simp: handleFileUpload_def listInvariant_def)
qed

lemma remove_invariant:
  assumes "listInvariant xs"
  shows "listInvariant (removeOffer i xs)"
proof -
  have d: "distinct (map UploadedOffer.id (removeOffer i xs))"
    using assms by (simp add: ids_remove listInvariant_def distinct_map_filter)
  have "length (filter UploadedOffer.isCurrent (removeOffer i xs)) = 1" if ne: "removeOffer i xs \<noteq> []"
  proof -
    from ne have "xs \<noteq> []" by (auto simp: removeOffer_def Let_def)
    with assms have "length (filter UploadedOffer.isCurrent xs) = 1" by (simp add: listInvariant_def)
    then show ?thesis using ne by (rule remove_one_current)
  qed
  with d show ?thesis by (simp add: listInvariant_def)
qed

lemma select_invariant:
  assumes "listInvariant xs" and "i \<in> UploadedOffer.id ` set xs"
  shows "listInvariant (selectCurrent i xs)"
  using assms filter_current_select [of xs i]
  by (simp add: listInvariant_def ids_select)

lemma reachable_invariant: "reachable xs \<Longrightarrow> listInvariant xs"
proof (induction rule: reachable.induct)
  case initial
  show ?case by (simp add: listInvariant_def)
next
  case (upload offers uuid chosen)
  then show ?case by (simp add: upload_invariant)
next
  case (remove offers i)
  then show ?case by (simp add: remove_invariant)
next
  case (select offers i)
  then show ?case by (simp add: select_invariant)
qed

text \<open>
  C3. Every offer list reached from the empty list by uploads, removals and selections
  of a listed offer has, when it is non-empty, exactly one entry with \<open>isCurrent\<close> set.
\<close>

theorem offer_list_one_current:
  assumes "reachable xs" and "xs \<noteq> []"
  shows "length (filter UploadedOffer.isCurrent xs) = 1"
  using reachable_invariant [OF assms(1)] assms(2) by (simp add: listInvariant_def)

lemma example_offers_value:
  "example_offers = [\<lparr>UploadedOffer.id = ''id-2'', file_name = ''b.pdf'', UploadedOffer.isCurrent = True\<rparr>]"
  by (simp add: example_offers_def handleFileUpload_def selectCurrent_def removeOffer_def)

lemma example_offers_reachable: "reachable example_offers"
  unfolding example_offers_def
  apply (rule reachable.remove)
  apply (rule reachable.select)
   apply (rule reachable.upload)
    apply (rule reachable.upload)
     apply (rule reachable.initial)
    apply simp
   apply (simp add: handleFileUpload_def)
  apply (simp add: handleFileUpload_def)
  done

theorem offer_list_one_current_witness:
  "reachable example_offers \<and> example_offers \<noteq> [] \<and>
   length (filter UploadedOffer.isCurrent example_offers) = 1"
  using offer_list_one_current [of example_offers] example_offers_reachable
  by (simp add: example_offers_value)


section \<open>Chat without a message or without an offer\<close>

lemma trim_blank:
  assumes "\<forall>c \<in> set t. is_space c"
  shows "trim t = []"
proof -
  from assms have d: "dropWhile is_space t = []" by (induction t) auto
  show ?thesis unfolding trim_def d by simp
qed

text \<open>
  C9. A message that is not blank, sent while no backend offer identifier is set, leaves
  the user's message in the transcript, appends the explanatory entry after it, raises
  one notification and sends no request, whatever the network would answer.
\<close>

theorem sendMessage_without_offer_id:
  assumes "trim (input st) \<noteq> []" and "ResultsState.backendOfferId st = None"
  shows "sendMessage network st =
    (st\<lparr>chat := chat st @
            [\<lparr>role = ''user'', content = trim (input st)\<rparr>,
             \<lparr>role = ''ai'',
              content = ''I couldn't reach Nemotron chat right now. '' @ missingOfferMessage\<rparr>],
          input := [], typing := False\<rparr>,
     \<lparr>notified = [\<lparr>title = ''Nemotron chat unavailable'',
                    description = Literal missingOfferMessage\<rparr>],
      requests = []\<rparr>)"
  using assms by (simp add: sendMessage_def askBackend_def Let_def missingOfferMessage_def)

theorem sendMessage_without_offer_id_witness:
  "trim (input (initialResults\<lparr>input := '' Is the bonus fair? ''\<rparr>)) \<noteq> [] \<and>
   ResultsState.backendOfferId (initialResults\<lparr>input := '' Is the bonus fair? ''\<rparr>) = None \<and>
   sendMessage example_network (initialResults\<lparr>input := '' Is the bonus fair? ''\<rparr>) =
    (initialResults\<lparr>chat :=
            [\<lparr>role = ''user'', content = ''Is the bonus fair?''\<rparr>,
             \<lparr>role = ''ai'',
              content = ''I couldn't reach Nemotron chat right now. '' @ missingOfferMessage\<rparr>]\<rparr>,
     \<lparr>notified = [\<lparr>title = ''Nemotron chat unavailable'',
                    description = Literal missingOfferMessage\<rparr>],
      requests = []\<rparr>)"
proof -
  have t: "trim '' Is the bonus fair? '' = ''Is the bonus fair?''"
    by (simp add: trim_def is_space_def)
  show ?thesis
    using sendMessage_without_offer_id [of "initialResults\<lparr>input := '' Is the bonus fair? ''\<rparr>" example_network]
    by (simp add: t initialResults_def)
qed

text \<open>
  C10. When the input is empty or holds only whitespace, \<open>sendMessage\<close> changes nothing:
  the transcript, the input and the typing indicator stay as they are, and there is no
  notification and no request.
\<close>

theorem sendMessage_blank_input:
  assumes "\<forall>c \<in> set (input st). is_space c"
  shows "sendMessage network st = (st, \<lparr>notified = [], requests = []\<rparr>)"
  using trim_blank [OF assms] by (simp add: sendMessage_def)

theorem sendMessage_blank_input_witness:
  "list_all is_space (input (initialResults\<lparr>input := ''   ''\<rparr>)) \<and>
   sendMessage example_network (initialResults\<lparr>input := ''   ''\<rparr>) =
     (initialResults\<lparr>input := ''   ''\<rparr>, \<lparr>notified = [], requests = []\<rparr>)"
  using sendMessage_blank_input [of "initialResults\<lparr>input := ''   ''\<rparr>" example_network]
  by (simp add: is_space_def)


section \<open>Market comparison\<close>


lemma marketComparison_iff:
  "marketComparison rx rawParsed rawEval = Inr (Some c) \<longleftrightarrow>
   derivedTotals rx rawParsed rawEval = Inr (offerTotal c, marketTotal c) \<and>
   0 < offerTotal c \<and> 0 < marketTotal c"
  by (cases c) (auto simp: marketComparison_def split: sum.splits if_splits)

lemma marketComparison_Some_ex:
  "(\<exists>c. marketComparison rx rawParsed rawEval = Inr (Some c)) \<longleftrightarrow>
   (\<exists>ot mt. derivedTotals rx rawParsed rawEval = Inr (ot, mt) \<and> 0 < ot \<and> 0 < mt)"
proof
  assume "\<exists>c. marketComparison rx rawParsed rawEval = Inr (Some c)"
  then obtain c where "marketComparison rx rawParsed rawEval = Inr (Some c)" ..
  then show "\<exists>ot mt. derivedTotals rx rawParsed rawEval = Inr (ot, mt) \<and> 0 < ot \<and> 0 < mt"
    unfolding marketComparison_iff by blast
next
  assume "\<exists>ot mt. derivedTotals rx rawParsed rawEval = Inr (ot, mt) \<and> 0 < ot \<and> 0 < mt"
  then obtain ot mt where "derivedTotals rx rawParsed rawEval = Inr (ot, mt)" "0 < ot" "0 < mt"
    by blast
  then have "marketComparison rx rawParsed rawEval = Inr (Some \<lparr>offerTotal = ot, marketTotal = mt\<rparr>)"
    by (simp add: marketComparison_iff)
  then show "\<exists>c. marketComparison rx rawParsed rawEval = Inr (Some c)" ..
qed

lemma mount_panel:
  assumes "mountResults base random rx session initialResults = Inr st"
  shows "comparisonPanelShown st \<longleftrightarrow>
         (\<exists>c. marketComparison rx (offergo_ingest_parsed session) (loadWorkflowEval session) = Inr (Some c))"
  using assms
  by (auto simp: mountResults_def comparisonPanelShown_def initialResults_def Let_def
           split: sum.splits option.splits)

lemma example_no_figures:
  "jsMatch MarketNumber ''Strong base'' = None"
  "jsMatch OfferNumber ''Strong base'' = None"
  "jsMatch MarketNumber ''Solid offer.'' = None"
  "jsMatch OfferedAmount ''Solid offer.'' = None"
  "jsMatch OfferAmount ''Solid offer.'' = None"
  by code_simp+


lemma example_known:
  "knownTotals jsMatch (Some (Json example_parsed)) (Some example_eval) = Inr (115000, 0)"
  by (simp add: knownTotals_def knownTotalsParsed_def extractMarketTotal_def extractOfferTotal_def
      example_parsed_def example_eval_def example_no_figures)

lemma example_recommendation:
  "WorkflowEvaluation.recommendation example_eval = Some ''accept''"
  by (simp add: example_eval_def)

lemma example_derived:
  "derivedTotals jsMatch (Some (Json example_parsed)) (Some example_eval) = Inr (115000, 109250)"
  by (simp add: derivedTotals_def example_known fallbackParsed_def Let_def marketRatio_def
      example_recommendation round_half_up_def)

lemma example_mount:
  "mountResults example_base example_random jsMatch example_session initialResults =
     Inr (initialResults\<lparr>data := Some example_base, workflowEval := Some example_eval,
            offerVsMarket := Some \<lparr>offerTotal = 115000, marketTotal = 109250\<rparr>\<rparr>)"
  by (simp add: mountResults_def generateDemoData_def example_session_def emptySession_def
      loadWorkflowEval_def marketComparison_def example_derived Let_def)

text \<open>
  C4. The market derivation hands a pair to \<open>setOfferVsMarket\<close> exactly when it has derived
  two totals that are both strictly positive, and the pair holds those totals; after a
  mount effect that completes, the comparison panel is shown exactly in that case.
\<close>

theorem comparison_iff_both_totals_positive:
  "(marketComparison rx rawParsed rawEval = Inr (Some c) \<longleftrightarrow>
      derivedTotals rx rawParsed rawEval = Inr (offerTotal c, marketTotal c) \<and>
      0 < offerTotal c \<and> 0 < marketTotal c) \<and>
   (mountResults base random rx session initialResults = Inr st \<longrightarrow>
      (comparisonPanelShown st \<longleftrightarrow>
         (\<exists>ot mt. derivedTotals rx (offergo_ingest_parsed session) (loadWorkflowEval session)
                     = Inr (ot, mt) \<and> 0 < ot \<and> 0 < mt)))"
  using marketComparison_iff mount_panel marketComparison_Some_ex by auto

theorem comparison_iff_both_totals_positive_witness:
  "marketComparison jsMatch (Some (Json example_parsed)) (Some example_eval)
     = Inr (Some \<lparr>offerTotal = 115000, marketTotal = 109250\<rparr>) \<and>
   derivedTotals jsMatch (Some (Json example_parsed)) (Some example_eval) = Inr (115000, 109250) \<and>
   (\<exists>st. mountResults example_base example_random jsMatch example_session initialResults = Inr st \<and>
         comparisonPanelShown st)"
proof -
  let ?st = "initialResults\<lparr>data := Some example_base, workflowEval := Some example_eval,
            offerVsMarket := Some \<lparr>offerTotal = 115000, marketTotal = 109250\<rparr>\<rparr>"
  have l: "loadWorkflowEval example_session = Some example_eval"
    by (simp add: loadWorkflowEval_def example_session_def emptySession_def)
  have p: "offergo_ingest_parsed example_session = Some (Json example_parsed)"
    by (simp add: example_session_def emptySession_def)
  note t = comparison_iff_both_totals_positive
    [of jsMatch "Some (Json example_parsed)" "Some example_eval"
        "\<lparr>offerTotal = 115000, marketTotal = 109250\<rparr>"
        example_base example_random example_session ?st]
  from t have "comparisonPanelShown ?st"
    using example_mount example_derived by (simp add: l p)
  moreover from t have "marketComparison jsMatch (Some (Json example_parsed)) (Some example_eval)
     = Inr (Some \<lparr>offerTotal = 115000, marketTotal = 109250\<rparr>)"
    using example_derived by simp
  ultimately show ?thesis using example_mount example_derived by blast
qed









section \<open>Malformed evaluation results\<close>

lemma mapEval_missing_list:
  assumes "WorkflowEvaluation.risks ev = None \<or> key_drivers ev = None \<or> negotiation_targets ev = None"
  shows "\<exists>p. mapEvalToAnalysis pr ev fname = Inl (TypeError p)"
  using assms by (auto simp: mapEvalToAnalysis_def Let_def split: option.splits)

lemma find_Some_list_ex: "find P xs = Some x \<Longrightarrow> list_ex P xs \<and> xs \<noteq> []"
  by (induction xs) (auto split: if_splits)

lemma handleSubmit_reaches_normalizer:
  assumes "find UploadedOffer.isCurrent offerState = Some cur"
    and "endsWith (map lower_ascii (file_name cur)) ''.pdf''"
    and "ingest env = Ok ij" and "offer_id ij = Some n" and "n \<noteq> 0"
    and "evaluate env = Ok ev"
    and "mapEvalToAnalysis pr ev (file_name cur) = Inl e"
  shows "shown (handleSubmit env offerState pr session) =
           [\<lparr>title = ''Analysis failed'', description = MessageOf e\<rparr>] \<and>
         navigated (handleSubmit env offerState pr session) = None \<and>
         offergo_demo_analysis (storage (handleSubmit env offerState pr session)) =
           offergo_demo_analysis session"
  using assms find_Some_list_ex [OF assms(1)]
  by (simp add: handleSubmit_def submitRequests_def Let_def)

text \<open>
  C6, for the list fields. When the evaluation result lacks one of the lists \<open>risks\<close>,
  \<open>key_drivers\<close> or \<open>negotiation_targets\<close>, \<open>mapEvalToAnalysis\<close> throws a \<open>TypeError\<close>, and a
  submission that reaches it shows the notification "Analysis failed" with the message
  of that error, does not navigate and stores no analysis.
\<close>

theorem missing_list_field_fails_loudly:
  assumes "WorkflowEvaluation.risks ev = None \<or> key_drivers ev = None \<or> negotiation_targets ev = None"
    and "find UploadedOffer.isCurrent offerState = Some cur"
    and "endsWith (map lower_ascii (file_name cur)) ''.pdf''"
    and "ingest env = Ok ij" and "offer_id ij = Some n" and "n \<noteq> 0"
    and "evaluate env = Ok ev"
  shows "\<exists>p. mapEvalToAnalysis pr ev (file_name cur) = Inl (TypeError p) \<and>
           shown (handleSubmit env offerState pr session) =
             [\<lparr>title = ''Analysis failed'', description = MessageOf (TypeError p)\<rparr>] \<and>
           navigated (handleSubmit env offerState pr session) = None \<and>
           offergo_demo_analysis (storage (handleSubmit env offerState pr session)) =
             offergo_demo_analysis session"
proof -
  from mapEval_missing_list [OF assms(1)]
  obtain p where p: "mapEvalToAnalysis pr ev (file_name cur) = Inl (TypeError p)" by blast
  from handleSubmit_reaches_normalizer [OF assms(2-7) p] p show ?thesis by blast
qed

lemma submitted_current:
  "find UploadedOffer.isCurrent submitted_offers =
     Some \<lparr>UploadedOffer.id = ''id-1'', file_name = ''offer.pdf'', UploadedOffer.isCurrent = True\<rparr>"
  by (simp add: submitted_offers_def)

lemma offer_pdf: "endsWith (map lower_ascii ''offer.pdf'') ''.pdf''"
  by (simp add: endsWith_def lower_ascii_def)

theorem missing_list_field_fails_loudly_witness:
  "mapEvalToAnalysis example_priorities (example_eval\<lparr>WorkflowEvaluation.risks := None\<rparr>) ''offer.pdf''
     = Inl (TypeError ''length'') \<and>
   shown (handleSubmit (example_env (example_eval\<lparr>WorkflowEvaluation.risks := None\<rparr>))
            submitted_offers example_priorities emptySession) =
     [\<lparr>title = ''Analysis failed'', description = MessageOf (TypeError ''length'')\<rparr>] \<and>
   navigated (handleSubmit (example_env (example_eval\<lparr>WorkflowEvaluation.risks := None\<rparr>))
            submitted_offers example_priorities emptySession) = None \<and>
   offergo_demo_analysis (storage (handleSubmit (example_env (example_eval\<lparr>WorkflowEvaluation.risks := None\<rparr>))
            submitted_offers example_priorities emptySession)) = None"
proof -
  let ?ev = "example_eval\<lparr>WorkflowEvaluation.risks := None\<rparr>"
  have m: "mapEvalToAnalysis example_priorities ?ev ''offer.pdf'' = Inl (TypeError ''length'')"
    by (simp add: mapEvalToAnalysis_def Let_def)
  let ?cur = "\<lparr>UploadedOffer.id = ''id-1'', file_name = ''offer.pdf'', UploadedOffer.isCurrent = True\<rparr>"
  let ?ij = "\<lparr>offer_id = Some 7, parsed = Some example_parsed\<rparr>"
  have h1: "WorkflowEvaluation.risks ?ev = None \<or> key_drivers ?ev = None \<or> negotiation_targets ?ev = None"
    by simp
  have h2: "find UploadedOffer.isCurrent submitted_offers = Some ?cur"
    by (rule submitted_current)
  have h3: "endsWith (map lower_ascii (file_name ?cur)) ''.pdf''"
    by (simp add: endsWith_def lower_ascii_def)
  have h4: "ingest (example_env ?ev) = Ok ?ij" by (simp add: example_env_def)
  have h5: "offer_id ?ij = Some 7" by simp
  have h6: "(7::int) \<noteq> 0" by simp
  have h7: "evaluate (example_env ?ev) = Ok ?ev" by (simp add: example_env_def)
  have "\<exists>p. mapEvalToAnalysis example_priorities ?ev (file_name ?cur) = Inl (TypeError p) \<and>
           shown (handleSubmit (example_env ?ev) submitted_offers example_priorities emptySession) =
             [\<lparr>title = ''Analysis failed'', description = MessageOf (TypeError p)\<rparr>] \<and>
           navigated (handleSubmit (example_env ?ev) submitted_offers example_priorities emptySession) = None \<and>
           offergo_demo_analysis (storage (handleSubmit (example_env ?ev) submitted_offers example_priorities emptySession)) =
             offergo_demo_analysis emptySession"
    by (rule missing_list_field_fails_loudly [OF h1 h2 h3 h4 h5 h6 h7])
  then show ?thesis using m by (auto simp: emptySession_def)
qed

text \<open>
  C6 does not hold for a missing number: an evaluation result without \<open>score\<close> is not
  rejected. The submission completes without a notification, navigates to the results
  page and stores an analysis with grade D and \<open>NaN\<close> scores.
\<close>

theorem missing_score_is_not_rejected:
  "handleSubmit (example_env (example_eval\<lparr>score := None\<rparr>)) submitted_offers example_priorities
     emptySession =
   \<lparr>storage = \<lparr>
      offergo_submission = Some (Json \<lparr>
        offers = [\<lparr>OfferRef.id = ''id-1'', fileName = ''offer.pdf'', OfferRef.isCurrent = True\<rparr>],
        priorities = example_priorities,
        backendOfferId = Some 7\<rparr>),
      offergo_demo_analysis = Some (Json \<lparr>
        overallScore = NaN,
        categoryScores = \<lparr>CategoryScores.financial = NaN, CategoryScores.career = NaN,
          CategoryScores.lifestyle = NaN, CategoryScores.alignment = NaN,
          CategoryScores.risk = Fin 84\<rparr>,
        grade = ''D'',
        strengths = [''Strong base''],
        risks = [],
        financialProjection = Some ''Solid offer.'',
        negotiationInsights = ''No negotiation targets were returned by the model.'',
        comparisonData = [\<lparr>OfferComparison.name = ''offer'', overall = NaN,
          OfferComparison.financial = NaN, OfferComparison.career = NaN,
          OfferComparison.risk = Fin 84\<rparr>],
        confidence = Fin 82,
        recommendation = Some ''accept''\<rparr>),
      offergo_workflow_eval = Some (Json (example_eval\<lparr>score := None\<rparr>)),
      offergo_ingest_parsed = Some (Json example_parsed),
      offergo_market_snapshot = Some (Json example_market),
      offergo_demo_user = None\<rparr>,
    shown = [],
    navigated = Some ''/results''\<rparr>"
  by (simp add: handleSubmit_def submitRequests_def submitted_offers_def example_env_def
      example_analysis_without_score Let_def endsWith_def lower_ascii_def
      emptySession_def)


section \<open>Corrupt stored JSON\<close>

text \<open>
  The profile loader, the evaluation loader and the market derivation treat a stored
  text that is not JSON as absent.
\<close>

lemma loadProfile_corrupt: "loadProfile \<lparr>offergo_profile = Some (Text t)\<rparr> = emptyProfile"
  by (simp add: loadProfile_def)

lemma loadWorkflowEval_corrupt:
  "offergo_workflow_eval session = Some (Text t) \<Longrightarrow> loadWorkflowEval session = None"
  by (simp add: loadWorkflowEval_def)

lemma marketComparison_corrupt:
  "t \<noteq> [] \<Longrightarrow> marketComparison rx (Some (Text t)) rawEval = Inr None"
  by (simp add: marketComparison_def derivedTotals_def knownTotals_def)

text \<open>
  C7. \<open>generateDemoData\<close> does not: with a corrupt text under \<open>offergo-demo-analysis\<close>, or
  under \<open>offergo-submission\<close> when no analysis is stored, it throws a \<open>SyntaxError\<close>, and the
  mount effect of the results page throws with it.
\<close>

theorem corrupt_stored_json_crashes_results:
  "generateDemoData example_base example_random corrupt_analysis_session = Inl SyntaxError \<and>
   mountResults example_base example_random jsMatch corrupt_analysis_session initialResults
     = Inl SyntaxError \<and>
   generateDemoData example_base example_random corrupt_submission_session = Inl SyntaxError \<and>
   mountResults example_base example_random jsMatch corrupt_submission_session initialResults
     = Inl SyntaxError"
  by (simp add: generateDemoData_def mountResults_def corrupt_analysis_session_def
      corrupt_submission_session_def emptySession_def)


section \<open>Logout\<close>

lemma logout_removes:
  "offergo_profile (fst (logoutDemoUser st)) = None \<and>
   offergo_submission (snd (logoutDemoUser st)) = None \<and>
   offergo_demo_analysis (snd (logoutDemoUser st)) = None \<and>
   offergo_demo_user (snd (logoutDemoUser st)) = None"
  by (simp add: logoutDemoUser_def)

lemma logout_keeps:
  "offergo_workflow_eval (snd (logoutDemoUser st)) = offergo_workflow_eval (snd st) \<and>
   offergo_ingest_parsed (snd (logoutDemoUser st)) = offergo_ingest_parsed (snd st) \<and>
   offergo_market_snapshot (snd (logoutDemoUser st)) = offergo_market_snapshot (snd st)"
  by (simp add: logoutDemoUser_def)

lemma example_submit_storage:
  "storage (handleSubmit (example_env example_eval) submitted_offers example_priorities emptySession)
   = \<lparr>offergo_submission = Some (Json \<lparr>
        offers = [\<lparr>OfferRef.id = ''id-1'', fileName = ''offer.pdf'', OfferRef.isCurrent = True\<rparr>],
        priorities = example_priorities,
        backendOfferId = Some 7\<rparr>),
      offergo_demo_analysis = Some (Json \<lparr>
        overallScore = Fin 87,
        categoryScores = \<lparr>CategoryScores.financial = Fin 98, CategoryScores.career = Fin 83,
          CategoryScores.lifestyle = Fin 79, CategoryScores.alignment = Fin 81,
          CategoryScores.risk = Fin 84\<rparr>,
        grade = ''A-'',
        strengths = [''Strong base''],
        risks = [],
        financialProjection = Some ''Solid offer.'',
        negotiationInsights = ''No negotiation targets were returned by the model.'',
        comparisonData = [\<lparr>OfferComparison.name = ''offer'', overall = Fin 87,
          OfferComparison.financial = Fin 98, OfferComparison.career = Fin 83,
          OfferComparison.risk = Fin 84\<rparr>],
        confidence = Fin 82,
        recommendation = Some ''accept''\<rparr>),
      offergo_workflow_eval = Some (Json example_eval),
      offergo_ingest_parsed = Some (Json example_parsed),
      offergo_market_snapshot = Some (Json example_market),
      offergo_demo_user = None\<rparr>"
  by (simp add: handleSubmit_def submitRequests_def submitted_offers_def example_env_def
      example_analysis Let_def endsWith_def lower_ascii_def emptySession_def)

text \<open>
  C8. After a completed submission and a demo login, \<open>logoutDemoUser\<close> leaves the
  workflow evaluation, the parsed ingestion fields and the market snapshot in the
  session storage.
\<close>

theorem logout_leaves_evaluation_keys:
  "snd (logoutDemoUser (loginDemoUser (emptyLocal,
      storage (handleSubmit (example_env example_eval) submitted_offers example_priorities
                 emptySession))))
   = emptySession\<lparr>offergo_workflow_eval := Some (Json example_eval),
       offergo_ingest_parsed := Some (Json example_parsed),
       offergo_market_snapshot := Some (Json example_market)\<rparr>"
  unfolding example_submit_storage
  by (simp add: logoutDemoUser_def loginDemoUser_def emptySession_def)

end
